theory Spec2Isabelle
  imports Complex_Main
begin

section \<open>Python values\<close>

text \<open>
  The import script \<^verbatim>\<open>TP4/Scripts/MongoToNeo4j.py\<close> reads documents whose fields are
  dynamically typed. A field value is one of the Python values below. A finite float is
  written with the rational it stands for (rounding inside the finite range of binary64 is
  not modelled); the three special values are constructors of their own. \<open>PObjectId\<close> is
  the driver's object identifier, carrying its hexadecimal text.
\<close>

datatype pyfloat = Finite rat | PosInf | NegInf | NaN

datatype pyval =
    PNone
  | PBool bool
  | PInt int
  | PFloat pyfloat
  | PStr string
  | PList "pyval list"
  | PDict "(string \<times> pyval) list"
  | PObjectId string

datatype error = ValueError | TypeError | OverflowError

type_synonym document = "(string \<times> pyval) list"

text \<open>Truth value testing (\<^verbatim>\<open>if x\<close>, \<^verbatim>\<open>not x\<close>, \<^verbatim>\<open>x or y\<close>).\<close>

fun truthy :: "pyval \<Rightarrow> bool" where
  "truthy PNone = False"
| "truthy (PBool b) = b"
| "truthy (PInt i) = (i \<noteq> 0)"
| "truthy (PFloat f) = (f \<noteq> Finite 0)"
| "truthy (PStr s) = (s \<noteq> [])"
| "truthy (PList xs) = (xs \<noteq> [])"
| "truthy (PDict d) = (d \<noteq> [])"
| "truthy (PObjectId h) = True"

text \<open>\<^verbatim>\<open>d.get(k, default)\<close>; \<^verbatim>\<open>d.get(k)\<close> is \<open>dict_get d k PNone\<close>.\<close>

definition dict_get :: "document \<Rightarrow> string \<Rightarrow> pyval \<Rightarrow> pyval" where
  "dict_get d k dflt = (case map_of d k of None \<Rightarrow> dflt | Some v \<Rightarrow> v)"

text \<open>\<^verbatim>\<open>x or y\<close>.\<close>

definition py_or :: "pyval \<Rightarrow> pyval \<Rightarrow> pyval" where
  "py_or x y = (if truthy x then x else y)"

section \<open>The builtins \<^verbatim>\<open>float\<close> and \<^verbatim>\<open>int\<close>\<close>

text \<open>
  Characters are the code points below 256; the only decimal digits among them are the
  ASCII digits. The regular expressions of \<^verbatim>\<open>strptime\<close> take as white space what
  \<^verbatim>\<open>\s\<close> accepts there: the codes 9 to 13, 28 to 32, 133 and 160 (\<open>is_space\<close>). The
  builtins \<^verbatim>\<open>float\<close> and \<^verbatim>\<open>int\<close> strip less: the codes 9 to 13, 32, 133 and 160
  (\<open>is_num_space\<close>); the separators 28 to 31 make them raise.
\<close>

definition is_space :: "char \<Rightarrow> bool" where
  "is_space c =
     (let n = (of_char c :: nat)
      in (9 \<le> n \<and> n \<le> 13) \<or> (28 \<le> n \<and> n \<le> 32) \<or> n = 133 \<or> n = 160)"

definition is_num_space :: "char \<Rightarrow> bool" where
  "is_num_space c =
     (let n = (of_char c :: nat) in (9 \<le> n \<and> n \<le> 13) \<or> n = 32 \<or> n = 133 \<or> n = 160)"

definition is_digit :: "char \<Rightarrow> bool" where
  "is_digit c = (let n = (of_char c :: nat) in 48 \<le> n \<and> n \<le> 57)"

definition digit_val :: "char \<Rightarrow> nat" where
  "digit_val c = of_char c - 48"

definition lower :: "char \<Rightarrow> char" where
  "lower c = (let n = (of_char c :: nat) in if 65 \<le> n \<and> n \<le> 90 then char_of (n + 32) else c)"

definition strip :: "string \<Rightarrow> string" where
  "strip s = rev (dropWhile is_num_space (rev (dropWhile is_num_space s)))"

definition dec_value :: "string \<Rightarrow> nat" where
  "dec_value ds = foldl (\<lambda>a c. 10 * a + digit_val c) 0 ds"

text \<open>
  A digit part is a digit followed by digits, each optionally preceded by one underscore.
  \<open>digitpart_rest\<close> reads what follows the first digit and returns the digits read and
  the unread text.
\<close>

fun digitpart_rest :: "string \<Rightarrow> string \<times> string" where
  "digitpart_rest [] = ([], [])"
| "digitpart_rest (c # cs) =
     (if is_digit c then (case digitpart_rest cs of (ds, r) \<Rightarrow> (c # ds, r))
      else if c = CHR ''_'' then
        (case cs of
           [] \<Rightarrow> ([], c # cs)
         | d # cs' \<Rightarrow>
             if is_digit d then (case digitpart_rest cs' of (ds, r) \<Rightarrow> (d # ds, r))
             else ([], c # cs))
      else ([], c # cs))"

definition digitpart :: "string \<Rightarrow> (string \<times> string) option" where
  "digitpart s =
     (case s of
        [] \<Rightarrow> None
      | c # cs \<Rightarrow>
          if is_digit c then (case digitpart_rest cs of (ds, r) \<Rightarrow> Some (c # ds, r))
          else None)"

text \<open>An optional sign: whether it is a minus, and the text after it.\<close>

definition sign_of :: "string \<Rightarrow> bool \<times> string" where
  "sign_of s =
     (case s of
        [] \<Rightarrow> (False, s)
      | c # cs \<Rightarrow>
          if c = CHR ''-'' then (True, cs)
          else if c = CHR ''+'' then (False, cs)
          else (False, s))"

text \<open>
  \<^verbatim>\<open>int(s)\<close> for a string, base ten: \<open>None\<close> stands for \<^verbatim>\<open>ValueError\<close>, which is
  also raised for more than 4300 digits (the default limit of the interpreter).
\<close>

definition int_of_str :: "string \<Rightarrow> int option" where
  "int_of_str s0 =
     (case sign_of (strip s0) of
        (neg, t) \<Rightarrow>
          (case digitpart t of
             Some (ds, []) \<Rightarrow>
               if 4300 < length ds then None
               else Some (if neg then - int (dec_value ds) else int (dec_value ds))
           | _ \<Rightarrow> None))"

text \<open>
  The exponent of a float literal: absent (the text is over), or \<^verbatim>\<open>e\<close>, an optional sign
  and a digit part that ends the text.
\<close>

definition exponent :: "string \<Rightarrow> int option" where
  "exponent s =
     (case s of
        [] \<Rightarrow> Some 0
      | c # cs \<Rightarrow>
          if lower c = CHR ''e'' then
            (case sign_of cs of
               (neg, t) \<Rightarrow>
                 (case digitpart t of
                    Some (ds, []) \<Rightarrow> Some (if neg then - int (dec_value ds) else int (dec_value ds))
                  | _ \<Rightarrow> None))
          else None)"

definition pow10 :: "int \<Rightarrow> rat" where
  "pow10 e = (if 0 \<le> e then 10 ^ nat e else 1 / 10 ^ nat (- e))"

text \<open>
  An unsigned decimal literal: digits, an optional point and digits (one of the two digit
  parts may be missing), an optional exponent.
\<close>

definition floatnumber :: "string \<Rightarrow> rat option" where
  "floatnumber s =
     (case digitpart s of
        Some (ip, r1) \<Rightarrow>
          (case r1 of
             c # r2 \<Rightarrow>
               if c = CHR ''.'' then
                 (case digitpart r2 of
                    Some (fp, r3) \<Rightarrow>
                      map_option
                        (\<lambda>e. of_nat (dec_value (ip @ fp)) * pow10 (e - int (length fp)))
                        (exponent r3)
                  | None \<Rightarrow> map_option (\<lambda>e. of_nat (dec_value ip) * pow10 e) (exponent r2))
               else map_option (\<lambda>e. of_nat (dec_value ip) * pow10 e) (exponent r1)
           | [] \<Rightarrow> Some (of_nat (dec_value ip)))
      | None \<Rightarrow>
          (case s of
             c # r2 \<Rightarrow>
               if c = CHR ''.'' then
                 (case digitpart r2 of
                    Some (fp, r3) \<Rightarrow>
                      map_option
                        (\<lambda>e. of_nat (dec_value fp) * pow10 (e - int (length fp)))
                        (exponent r3)
                  | None \<Rightarrow> None)
               else None
           | [] \<Rightarrow> None))"

text \<open>
  A parsed decimal beyond the range of binary64 becomes an infinity, one below half the
  least subnormal becomes zero.
\<close>

definition to_double :: "rat \<Rightarrow> pyfloat" where
  "to_double q =
     (if 2 ^ 1024 - 2 ^ 970 \<le> q then PosInf
      else if q \<le> - (2 ^ 1024 - 2 ^ 970) then NegInf
      else if \<bar>q\<bar> \<le> 1 / 2 ^ 1075 then Finite 0
      else Finite q)"

text \<open>\<^verbatim>\<open>float(s)\<close> for a string: \<open>None\<close> stands for \<^verbatim>\<open>ValueError\<close>.\<close>

definition float_of_str :: "string \<Rightarrow> pyfloat option" where
  "float_of_str s0 =
     (case sign_of (strip s0) of
        (neg, t) \<Rightarrow>
          if map lower t = ''inf'' \<or> map lower t = ''infinity'' then
            Some (if neg then NegInf else PosInf)
          else if map lower t = ''nan'' then Some NaN
          else map_option (\<lambda>q. to_double (if neg then - q else q)) (floatnumber t))"

text \<open>\<^verbatim>\<open>float(x)\<close> and \<^verbatim>\<open>int(x)\<close> on any value.\<close>

fun py_float :: "pyval \<Rightarrow> error + pyfloat" where
  "py_float (PFloat f) = Inr f"
| "py_float (PInt i) =
     (if 2 ^ 1024 - 2 ^ 970 \<le> \<bar>i\<bar> then Inl OverflowError else Inr (Finite (of_int i)))"
| "py_float (PBool b) = Inr (Finite (if b then 1 else 0))"
| "py_float (PStr s) = (case float_of_str s of None \<Rightarrow> Inl ValueError | Some f \<Rightarrow> Inr f)"
| "py_float v = Inl TypeError"

fun py_int :: "pyval \<Rightarrow> error + int" where
  "py_int (PInt i) = Inr i"
| "py_int (PBool b) = Inr (if b then 1 else 0)"
| "py_int (PFloat (Finite q)) = Inr (if 0 \<le> q then \<lfloor>q\<rfloor> else \<lceil>q\<rceil>)"
| "py_int (PFloat NaN) = Inl ValueError"
| "py_int (PFloat f) = Inl OverflowError"
| "py_int (PStr s) = (case int_of_str s of None \<Rightarrow> Inl ValueError | Some i \<Rightarrow> Inr i)"
| "py_int v = Inl TypeError"

section \<open>Dates: \<^verbatim>\<open>datetime.strptime\<close>, \<^verbatim>\<open>isoformat\<close> and \<^verbatim>\<open>parse_date\<close>\<close>

record datetime =
  year :: nat
  month :: nat
  day :: nat
  hour :: nat
  minute :: nat
  second :: nat
  microsecond :: nat

text \<open>
  \<^verbatim>\<open>strptime\<close> turns a format into a regular expression, matched at the start of the text
  without regard to letter case: each directive is a group of alternatives tried from left
  to right, a run of white space in the format is \<^verbatim>\<open>\s+\<close>, any other character stands
  for itself. The text must then be used up by the first match found.
\<close>

datatype directive = Dir_Y | Dir_m | Dir_d | Dir_H | Dir_M | Dir_S | Dir_f

datatype fmt_item = Dir directive | Lit char | Spaces | Bad

definition directive_of :: "char \<Rightarrow> directive option" where
  "directive_of c =
     (if c = CHR ''Y'' then Some Dir_Y
      else if c = CHR ''m'' then Some Dir_m
      else if c = CHR ''d'' then Some Dir_d
      else if c = CHR ''H'' then Some Dir_H
      else if c = CHR ''M'' then Some Dir_M
      else if c = CHR ''S'' then Some Dir_S
      else if c = CHR ''f'' then Some Dir_f
      else None)"

text \<open>
  The items of a format. \<open>Bad\<close> stands for a directive outside the seven above or a
  \<^verbatim>\<open>%\<close> that ends the format; none occurs in the formats of \<^verbatim>\<open>parse_date\<close>.
\<close>

fun compile_format :: "string \<Rightarrow> fmt_item list" where
  "compile_format [] = []"
| "compile_format (c # cs) =
     (if c = CHR ''%'' then
        (case cs of
           [] \<Rightarrow> [Bad]
         | d # cs' \<Rightarrow>
             (case directive_of d of
                Some dv \<Rightarrow> Dir dv # compile_format cs'
              | None \<Rightarrow> Bad # compile_format cs'))
      else if is_space c then
        (case compile_format cs of
           Spaces # its \<Rightarrow> Spaces # its
         | its \<Rightarrow> Spaces # its)
      else Lit c # compile_format cs)"

text \<open>A digit between two bounds, and the blank.\<close>

definition rng :: "nat \<Rightarrow> nat \<Rightarrow> char \<Rightarrow> bool" where
  "rng lo hi c = (is_digit c \<and> lo \<le> digit_val c \<and> digit_val c \<le> hi)"

definition blank :: "char \<Rightarrow> bool" where
  "blank c = (c = CHR '' '')"

text \<open>
  The alternatives of each directive, in the order of the library:
  \<^verbatim>\<open>%Y\<close> is \<^verbatim>\<open>\d\d\d\d\<close>, \<^verbatim>\<open>%m\<close> is \<^verbatim>\<open>1[0-2]|0[1-9]|[1-9]\<close>,
  \<^verbatim>\<open>%d\<close> is \<^verbatim>\<open>3[0-1]|[1-2]\d|0[1-9]|[1-9]| [1-9]\<close>, \<^verbatim>\<open>%H\<close> is \<^verbatim>\<open>2[0-3]|[0-1]\d|\d\<close>,
  \<^verbatim>\<open>%M\<close> is \<^verbatim>\<open>[0-5]\d|\d\<close>, \<^verbatim>\<open>%S\<close> is \<^verbatim>\<open>6[0-1]|[0-5]\d|\d\<close> and
  \<^verbatim>\<open>%f\<close> is \<^verbatim>\<open>[0-9]{1,6}\<close>, the longest first.
\<close>

definition alternatives :: "directive \<Rightarrow> (char \<Rightarrow> bool) list list" where
  "alternatives dv =
     (case dv of
        Dir_Y \<Rightarrow> [[rng 0 9, rng 0 9, rng 0 9, rng 0 9]]
      | Dir_m \<Rightarrow> [[rng 1 1, rng 0 2], [rng 0 0, rng 1 9], [rng 1 9]]
      | Dir_d \<Rightarrow>
          [[rng 3 3, rng 0 1], [rng 1 2, rng 0 9], [rng 0 0, rng 1 9], [rng 1 9],
           [blank, rng 1 9]]
      | Dir_H \<Rightarrow> [[rng 2 2, rng 0 3], [rng 0 1, rng 0 9], [rng 0 9]]
      | Dir_M \<Rightarrow> [[rng 0 5, rng 0 9], [rng 0 9]]
      | Dir_S \<Rightarrow> [[rng 6 6, rng 0 1], [rng 0 5, rng 0 9], [rng 0 9]]
      | Dir_f \<Rightarrow>
          [[rng 0 9, rng 0 9, rng 0 9, rng 0 9, rng 0 9, rng 0 9],
           [rng 0 9, rng 0 9, rng 0 9, rng 0 9, rng 0 9],
           [rng 0 9, rng 0 9, rng 0 9, rng 0 9],
           [rng 0 9, rng 0 9, rng 0 9],
           [rng 0 9, rng 0 9],
           [rng 0 9]])"

fun match_classes :: "(char \<Rightarrow> bool) list \<Rightarrow> string \<Rightarrow> (string \<times> string) option" where
  "match_classes [] s = Some ([], s)"
| "match_classes (p # ps) [] = None"
| "match_classes (p # ps) (c # cs) =
     (if p c then (case match_classes ps cs of None \<Rightarrow> None | Some (m, r) \<Rightarrow> Some (c # m, r))
      else None)"

text \<open>The alternatives that match at the start of a text, in their order.\<close>

fun alt_matches :: "(char \<Rightarrow> bool) list list \<Rightarrow> string \<Rightarrow> (string \<times> string) list" where
  "alt_matches [] s = []"
| "alt_matches (a # as) s =
     (case match_classes a s of
        None \<Rightarrow> alt_matches as s
      | Some mr \<Rightarrow> mr # alt_matches as s)"

text \<open>The non-empty runs of white space at the start of a text, the longest first.\<close>

fun space_runs :: "string \<Rightarrow> (string \<times> string) list" where
  "space_runs [] = []"
| "space_runs (c # cs) =
     (if is_space c then map (\<lambda>(m, r). (c # m, r)) (space_runs cs) @ [([c], cs)] else [])"

text \<open>The ways one item matches at the start of a text, in the order they are tried.\<close>

fun candidates :: "fmt_item \<Rightarrow> string \<Rightarrow> (string \<times> string) list" where
  "candidates (Dir dv) s = alt_matches (alternatives dv) s"
| "candidates (Lit c) [] = []"
| "candidates (Lit c) (x # xs) = (if lower x = lower c then [([x], xs)] else [])"
| "candidates Spaces s = space_runs s"
| "candidates Bad s = []"

text \<open>
  The first match of a format at the start of a text, found by backtracking: the text of
  each directive and what is left unread. \<open>try_candidates\<close> goes through the ways
  the first item matches until the rest of the format matches after one of them.
\<close>

fun add_field :: "fmt_item \<Rightarrow> string \<Rightarrow> (directive \<times> string) list \<Rightarrow> (directive \<times> string) list" where
  "add_field (Dir dv) m fs = (dv, m) # fs"
| "add_field it m fs = fs"

function regex_match :: "fmt_item list \<Rightarrow> string \<Rightarrow> ((directive \<times> string) list \<times> string) option"
  and try_candidates ::
    "fmt_item \<Rightarrow> fmt_item list \<Rightarrow> (string \<times> string) list \<Rightarrow>
       ((directive \<times> string) list \<times> string) option"
where
  "regex_match [] s = Some ([], s)"
| "regex_match (it # its) s = try_candidates it its (candidates it s)"
| "try_candidates it its [] = None"
| "try_candidates it its ((m, r) # cands) =
     (case regex_match its r of
        Some (fs, r') \<Rightarrow> Some (add_field it m fs, r')
      | None \<Rightarrow> try_candidates it its cands)"
  by pat_completeness auto
termination
  by (relation "measures
        [\<lambda>x. case x of Inl (its, s) \<Rightarrow> 2 * length its
                       | Inr (it, its, cands) \<Rightarrow> 2 * length its + 1,
         \<lambda>x. case x of Inl (its, s) \<Rightarrow> 0
                       | Inr (it, its, cands) \<Rightarrow> length cands]") auto

text \<open>The number a directive matched (\<open>dflt\<close> when the format has no such directive).\<close>

definition field :: "directive \<Rightarrow> (directive \<times> string) list \<Rightarrow> nat \<Rightarrow> nat" where
  "field dv fs dflt =
     (case map_of fs dv of None \<Rightarrow> dflt | Some m \<Rightarrow> dec_value (filter is_digit m))"

text \<open>The fraction is padded with zeros on the right to six digits.\<close>

definition fraction :: "(directive \<times> string) list \<Rightarrow> nat" where
  "fraction fs =
     (case map_of fs Dir_f of None \<Rightarrow> 0 | Some m \<Rightarrow> dec_value m * 10 ^ (6 - length m))"

definition is_leap :: "nat \<Rightarrow> bool" where
  "is_leap y = (y mod 4 = 0 \<and> (y mod 100 \<noteq> 0 \<or> y mod 400 = 0))"

definition days_in_month :: "nat \<Rightarrow> nat \<Rightarrow> nat" where
  "days_in_month y m =
     (if m = 2 then (if is_leap y then 29 else 28)
      else if m = 4 \<or> m = 6 \<or> m = 9 \<or> m = 11 then 30
      else 31)"

text \<open>
  \<^verbatim>\<open>datetime.strptime(date_str, fmt)\<close> on a string; \<open>None\<close> stands for \<^verbatim>\<open>ValueError\<close>:
  no match, text left over, or a date or time out of range (year 0, 30 February,
  second 60).
\<close>

definition strptime :: "string \<Rightarrow> string \<Rightarrow> datetime option" where
  "strptime date_str fmt =
     (case regex_match (compile_format fmt) date_str of
        None \<Rightarrow> None
      | Some (fs, r) \<Rightarrow>
          if r \<noteq> [] then None
          else
            (let y = field Dir_Y fs 1900; m = field Dir_m fs 1; d = field Dir_d fs 1;
                 s = field Dir_S fs 0
             in if 1 \<le> y \<and> 1 \<le> m \<and> m \<le> 12 \<and> 1 \<le> d \<and> d \<le> days_in_month y m \<and> s \<le> 59 then
                  Some \<lparr>year = y, month = m, day = d, hour = field Dir_H fs 0,
                        minute = field Dir_M fs 0, second = s, microsecond = fraction fs\<rparr>
                else None))"

text \<open>Lines 196-215.\<close>

definition formats :: "string list" where
  "formats =
     [''%Y-%m-%dT%H:%M:%S.%fZ'',
      ''%Y-%m-%dT%H:%M:%SZ'',
      ''%Y-%m-%d %H:%M:%S'',
      ''%Y-%m-%d'']"

text \<open>The loop over the formats: the first one that parses returns.\<close>

fun try_formats :: "string \<Rightarrow> string list \<Rightarrow> datetime option" where
  "try_formats date_str [] = None"
| "try_formats date_str (fmt # fmts) =
     (case strptime date_str fmt of
        Some dt \<Rightarrow> Some dt
      | None \<Rightarrow> try_formats date_str fmts)"

text \<open>
  \<^verbatim>\<open>parse_date\<close> catches \<^verbatim>\<open>ValueError\<close> only: a truthy argument that is not a string
  makes \<^verbatim>\<open>strptime\<close> raise \<^verbatim>\<open>TypeError\<close>, which leaves the function.
\<close>

definition parse_date :: "pyval \<Rightarrow> error + datetime option" where
  "parse_date date_str =
     (if \<not> truthy date_str then Inr None
      else case date_str of
             PStr s \<Rightarrow> Inr (try_formats s formats)
           | _ \<Rightarrow> Inl TypeError)"

definition digit_char :: "nat \<Rightarrow> char" where
  "digit_char d = ''0123456789'' ! d"

fun pad :: "nat \<Rightarrow> nat \<Rightarrow> string" where
  "pad 0 n = []"
| "pad (Suc w) n = pad w (n div 10) @ [digit_char (n mod 10)]"

text \<open>\<^verbatim>\<open>dt.isoformat()\<close>: the microseconds are written only when they are not zero.\<close>

definition isoformat :: "datetime \<Rightarrow> string" where
  "isoformat dt =
     pad 4 (year dt) @ ''-'' @ pad 2 (month dt) @ ''-'' @ pad 2 (day dt) @ ''T'' @
     pad 2 (hour dt) @ '':'' @ pad 2 (minute dt) @ '':'' @ pad 2 (second dt) @
     (if microsecond dt \<noteq> 0 then ''.'' @ pad 6 (microsecond dt) else [])"

text \<open>
  The parameter the script passes for a date: \<^verbatim>\<open>d.isoformat() if d else None\<close> (a
  \<^verbatim>\<open>datetime\<close> is always truthy).
\<close>

definition date_param :: "datetime option \<Rightarrow> pyval" where
  "date_param d = (case d of None \<Rightarrow> PNone | Some dt \<Rightarrow> PStr (isoformat dt))"

section \<open>Resolving the key of a document\<close>

text \<open>
  Lines 223-231 of \<^verbatim>\<open>create_market_node\<close>. The builtin \<^verbatim>\<open>str\<close> is a parameter
  (\<open>str_of\<close>): the script only calls it, on an \<^verbatim>\<open>_id\<close> that is neither a dictionary
  with \<^verbatim>\<open>$oid\<close> nor a string.
\<close>

definition market_id :: "(pyval \<Rightarrow> string) \<Rightarrow> document \<Rightarrow> pyval" where
  "market_id str_of market_data =
     (let mid = dict_get market_data ''id'' (PStr '''') in
      if \<not> truthy mid then
        (let uid = dict_get market_data ''_id'' (PStr '''') in
         case uid of
           PDict d \<Rightarrow>
             (case map_of d ''$oid'' of
                Some oid \<Rightarrow> oid
              | None \<Rightarrow> if truthy uid then PStr (str_of uid) else PStr '''')
         | PStr s \<Rightarrow> PStr s
         | _ \<Rightarrow> if truthy uid then PStr (str_of uid) else PStr '''')
      else mid)"

section \<open>Field normalisation inside \<^verbatim>\<open>create_market_node\<close>\<close>

text \<open>Sequencing of computations that may raise.\<close>

definition bind_err :: "error + 'a \<Rightarrow> ('a \<Rightarrow> error + 'b) \<Rightarrow> error + 'b" where
  "bind_err r f = (case r of Inl e \<Rightarrow> Inl e | Inr x \<Rightarrow> f x)"

text \<open>
  Lines 236-249: the volume, unboxed from \<^verbatim>\<open>{"$numberDouble": ...}\<close>. The handler
  catches \<^verbatim>\<open>ValueError\<close> and \<^verbatim>\<open>TypeError\<close>; an \<^verbatim>\<open>OverflowError\<close> is not caught.
\<close>

definition volume :: "document \<Rightarrow> error + pyval" where
  "volume market_data =
     (let v = dict_get market_data ''volume'' (PInt 0) in
      case v of
        PDict d \<Rightarrow>
          (case map_of d ''$numberDouble'' of
             None \<Rightarrow> Inr v
           | Some volume_str \<Rightarrow>
               if volume_str = PStr ''Infinity'' then Inr (PFloat PosInf)
               else if volume_str = PStr ''-Infinity'' then Inr (PFloat NegInf)
               else if volume_str = PStr ''NaN'' then Inr (PFloat NaN)
               else
                 (case py_float volume_str of
                    Inr f \<Rightarrow> Inr (PFloat f)
                  | Inl ValueError \<Rightarrow> Inr (PInt 0)
                  | Inl TypeError \<Rightarrow> Inr (PInt 0)
                  | Inl OverflowError \<Rightarrow> Inl OverflowError))
      | _ \<Rightarrow> Inr v)"

text \<open>Line 290: \<^verbatim>\<open>float(volume) if volume else 0.0\<close>.\<close>

definition volume_param :: "document \<Rightarrow> error + pyfloat" where
  "volume_param market_data =
     bind_err (volume market_data) (\<lambda>v. if truthy v then py_float v else Inr (Finite 0))"

text \<open>Line 291: \<^verbatim>\<open>int(comment_count) if comment_count else 0\<close>.\<close>

definition comment_count_param :: "document \<Rightarrow> error + int" where
  "comment_count_param market_data =
     (let comment_count = dict_get market_data ''commentCount'' (PInt 0) in
      if truthy comment_count then py_int comment_count else Inr 0)"

text \<open>Lines 258-261.\<close>

definition start_date :: "document \<Rightarrow> error + datetime option" where
  "start_date market_data = parse_date (dict_get market_data ''startDate'' PNone)"

definition end_date :: "document \<Rightarrow> error + datetime option" where
  "end_date market_data = parse_date (dict_get market_data ''endDate'' PNone)"

definition created_at :: "document \<Rightarrow> error + datetime option" where
  "created_at market_data =
     parse_date (py_or (dict_get market_data ''createdAt'' PNone)
                       (dict_get market_data ''creationDate'' PNone))"

definition closed_time :: "document \<Rightarrow> error + datetime option" where
  "closed_time market_data = parse_date (dict_get market_data ''closedTime'' PNone)"

text \<open>
  The parameters of the query of lines 264-300 other than \<^verbatim>\<open>$id\<close>, in the order of its
  \<^verbatim>\<open>SET\<close> clause, computed in the order the script computes them: the volume is unboxed,
  the four dates are parsed, then \<^verbatim>\<open>float\<close> and \<^verbatim>\<open>int\<close> are applied. The first
  exception ends the call.
\<close>

definition market_params :: "document \<Rightarrow> error + (string \<times> pyval) list" where
  "market_params market_data =
     bind_err (volume market_data) (\<lambda>vol.
     bind_err (start_date market_data) (\<lambda>sd.
     bind_err (end_date market_data) (\<lambda>ed.
     bind_err (created_at market_data) (\<lambda>ca.
     bind_err (closed_time market_data) (\<lambda>ct.
     bind_err (if truthy vol then py_float vol else Inr (Finite 0)) (\<lambda>vp.
     bind_err (comment_count_param market_data) (\<lambda>cc.
       Inr [(''title'', dict_get market_data ''title'' (PStr [])),
            (''description'', dict_get market_data ''description'' (PStr [])),
            (''slug'', dict_get market_data ''slug'' (PStr [])),
            (''ticker'', dict_get market_data ''ticker'' (PStr [])),
            (''volume'', PFloat vp),
            (''commentCount'', PInt cc),
            (''image'', dict_get market_data ''image'' (PStr [])),
            (''icon'', dict_get market_data ''icon'' (PStr [])),
            (''resolutionSource'', dict_get market_data ''resolutionSource'' (PStr [])),
            (''publishedAt'', dict_get market_data ''published_at'' (PStr [])),
            (''updatedAt'', dict_get market_data ''updatedAt'' (PStr [])),
            (''startDate'', date_param sd),
            (''endDate'', date_param ed),
            (''createdAt'', date_param ca),
            (''closedTime'', date_param ct)])))))))"

section \<open>The graph store\<close>

text \<open>
  The target of the import is a property graph: a list of nodes, each with a label and
  properties, and a list of typed edges between node positions. The three queries of the
  script are read with the semantics of Cypher: \<^verbatim>\<open>MATCH\<close> binds every node with the label
  and the property value, \<^verbatim>\<open>MERGE\<close> of a node binds the same nodes and creates one when
  there is none, \<^verbatim>\<open>MERGE\<close> of an edge creates it unless it exists, an empty \<^verbatim>\<open>MATCH\<close>
  ends the query, and \<^verbatim>\<open>SET p = null\<close> removes the property. Property values are compared
  structurally, which is Cypher's equality on strings, the type of every key in the
  data model. The store is taken to accept every write; uniqueness constraints do not
  change nodes or edges and are left out.
\<close>

datatype label = Market | Category | Series

datatype rel_type = BELONGS_TO | IN_SERIES

record node =
  label :: label
  props :: "string \<rightharpoonup> pyval"

record graph =
  nodes :: "node list"
  rels :: "(nat \<times> rel_type \<times> nat) list"

definition empty_graph :: graph where
  "empty_graph = \<lparr>nodes = [], rels = []\<rparr>"

definition matches :: "label \<Rightarrow> string \<Rightarrow> pyval \<Rightarrow> node \<Rightarrow> bool" where
  "matches l k v n = (label n = l \<and> props n k = Some v)"

text \<open>\<^verbatim>\<open>MATCH (x:l {k: v})\<close>: the positions of the matching nodes.\<close>

definition match_nodes :: "graph \<Rightarrow> label \<Rightarrow> string \<Rightarrow> pyval \<Rightarrow> nat list" where
  "match_nodes g l k v = filter (\<lambda>i. matches l k v (nodes g ! i)) [0..<length (nodes g)]"

text \<open>\<^verbatim>\<open>MERGE (x:l {k: v})\<close>: the graph, with the node added when none matches, and the bound nodes.\<close>

definition merge_node :: "label \<Rightarrow> string \<Rightarrow> pyval \<Rightarrow> graph \<Rightarrow> graph \<times> nat list" where
  "merge_node l k v g =
     (case match_nodes g l k v of
        [] \<Rightarrow> (g\<lparr>nodes := nodes g @ [\<lparr>label = l, props = [k \<mapsto> v]\<rparr>]\<rparr>, [length (nodes g)])
      | i # is \<Rightarrow> (g, i # is))"

text \<open>\<^verbatim>\<open>MERGE (a)-[:t]->(b)\<close> for one pair of bound nodes.\<close>

definition merge_rel :: "rel_type \<Rightarrow> nat \<times> nat \<Rightarrow> graph \<Rightarrow> graph" where
  "merge_rel t ab g =
     (if (fst ab, t, snd ab) \<in> set (rels g) then g
      else g\<lparr>rels := rels g @ [(fst ab, t, snd ab)]\<rparr>)"

text \<open>\<^verbatim>\<open>SET x.k = v, ...\<close> on one property map, from left to right.\<close>

definition set_properties :: "(string \<times> pyval) list \<Rightarrow> (string \<rightharpoonup> pyval) \<Rightarrow> (string \<rightharpoonup> pyval)" where
  "set_properties kvs m =
     fold (\<lambda>kv m. if snd kv = PNone then m(fst kv := None) else m(fst kv \<mapsto> snd kv)) kvs m"

text \<open>The same on every bound node.\<close>

definition set_nodes :: "nat list \<Rightarrow> (string \<times> pyval) list \<Rightarrow> graph \<Rightarrow> graph" where
  "set_nodes is kvs g =
     g\<lparr>nodes := fold (\<lambda>i ns. ns[i := (ns ! i)\<lparr>props := set_properties kvs (props (ns ! i))\<rparr>])
                    is (nodes g)\<rparr>"

section \<open>The graph writer\<close>

text \<open>
  Lines 264-300, \<^verbatim>\<open>MERGE (m:Market {id: $id}) SET m.title = $title, ... RETURN m\<close>.
\<close>

definition market_query :: "pyval \<Rightarrow> (string \<times> pyval) list \<Rightarrow> graph \<Rightarrow> graph" where
  "market_query mid kvs g = (case merge_node Market ''id'' mid g of (g', ms) \<Rightarrow> set_nodes ms kvs g')"

text \<open>
  \<^verbatim>\<open>create_market_node\<close> (lines 218-302): the graph after the query and the key returned,
  or the exception raised before the query runs.
\<close>

definition create_market_node ::
    "(pyval \<Rightarrow> string) \<Rightarrow> graph \<Rightarrow> document \<Rightarrow> error + graph \<times> pyval" where
  "create_market_node str_of g market_data =
     (let mid = market_id str_of market_data in
      bind_err (market_params market_data) (\<lambda>kvs. Inr (market_query mid kvs g, mid)))"

text \<open>
  Lines 311-316 and 325-330,
  \<^verbatim>\<open>MATCH (m:Market {id: $marketId}) MERGE (c:l {k: $v}) MERGE (m)-[:t]->(c)\<close>.
\<close>

definition link_query :: "label \<Rightarrow> string \<Rightarrow> rel_type \<Rightarrow> pyval \<Rightarrow> pyval \<Rightarrow> graph \<Rightarrow> graph" where
  "link_query l k t mid v g =
     (case match_nodes g Market ''id'' mid of
        [] \<Rightarrow> g
      | m # ms \<Rightarrow>
          (case merge_node l k v g of
             (g', cs) \<Rightarrow> fold (merge_rel t) (List.product (m # ms) cs) g'))"

text \<open>Lines 305-317.\<close>

definition create_category_relationship :: "graph \<Rightarrow> pyval \<Rightarrow> pyval \<Rightarrow> graph" where
  "create_category_relationship g mid category_name =
     (if \<not> truthy category_name then g
      else link_query Category ''name'' BELONGS_TO mid category_name g)"

text \<open>Lines 319-330.\<close>

definition create_series_relationship :: "graph \<Rightarrow> pyval \<Rightarrow> pyval \<Rightarrow> graph" where
  "create_series_relationship g mid series_slug =
     (if \<not> truthy series_slug then g
      else link_query Series ''slug'' IN_SERIES mid series_slug g)"

section \<open>The batch import\<close>

record stats =
  processed :: nat
  markets_created :: nat
  categories_created :: nat
  series_created :: nat

definition no_stats :: stats where
  "no_stats = \<lparr>processed = 0, markets_created = 0, categories_created = 0, series_created = 0\<rparr>"

text \<open>
  The body of the loop over a batch (lines 374-395 and 403-420): an exception raised for a
  document is printed and the loop goes on with the next one. The only exceptions of the
  model are raised by \<^verbatim>\<open>create_market_node\<close> before its query runs, so a skipped document
  changes neither the graph nor the counters.
\<close>

definition process_document ::
    "(pyval \<Rightarrow> string) \<Rightarrow> document \<Rightarrow> graph \<times> stats \<Rightarrow> graph \<times> stats" where
  "process_document str_of market_data gs =
     (case gs of
        (g, st) \<Rightarrow>
          (case create_market_node str_of g market_data of
             Inl e \<Rightarrow> (g, st)
           | Inr (g1, mid) \<Rightarrow>
               (let st1 = st\<lparr>markets_created := markets_created st + 1\<rparr>;
                    category = dict_get market_data ''category'' PNone;
                    g2 = (if truthy category then create_category_relationship g1 mid category
                          else g1);
                    st2 = (if truthy category
                           then st1\<lparr>categories_created := categories_created st1 + 1\<rparr>
                           else st1);
                    series_slug = dict_get market_data ''seriesSlug'' PNone;
                    g3 = (if truthy series_slug then create_series_relationship g2 mid series_slug
                          else g2);
                    st3 = (if truthy series_slug
                           then st2\<lparr>series_created := series_created st2 + 1\<rparr>
                           else st2)
                in (g3, st3\<lparr>processed := processed st3 + 1\<rparr>))))"

definition process_batch ::
    "(pyval \<Rightarrow> string) \<Rightarrow> document list \<Rightarrow> graph \<times> stats \<Rightarrow> graph \<times> stats" where
  "process_batch str_of batch gs = fold (process_document str_of) batch gs"

text \<open>
  Lines 367-420: the cursor is read into \<open>batch\<close>; a batch that has reached
  \<open>batch_size\<close> is processed and emptied, and what is left when the cursor ends is
  processed last.
\<close>

fun import_loop ::
    "(pyval \<Rightarrow> string) \<Rightarrow> int \<Rightarrow> document list \<Rightarrow> document list \<Rightarrow> graph \<times> stats \<Rightarrow> graph \<times> stats"
where
  "import_loop str_of batch_size [] batch gs =
     (if batch \<noteq> [] then process_batch str_of batch gs else gs)"
| "import_loop str_of batch_size (doc # cursor) batch gs =
     (if batch_size \<le> int (length (batch @ [doc]))
      then import_loop str_of batch_size cursor [] (process_batch str_of (batch @ [doc]) gs)
      else import_loop str_of batch_size cursor (batch @ [doc]) gs)"

text \<open>The final statistics (lines 422-446): what the store counts, and the counters.\<close>

record report =
  market_count :: nat
  category_count :: nat
  series_count :: nat
  relationship_count :: nat
  counters :: stats
  total_docs :: nat

definition count_label :: "graph \<Rightarrow> label \<Rightarrow> nat" where
  "count_label g l = length (filter (\<lambda>n. label n = l) (nodes g))"

definition final_report :: "graph \<Rightarrow> stats \<Rightarrow> nat \<Rightarrow> report" where
  "final_report g st n =
     \<lparr>market_count = count_label g Market, category_count = count_label g Category,
      series_count = count_label g Series, relationship_count = length (rels g),
      counters = st, total_docs = n\<rparr>"

text \<open>
  \<^verbatim>\<open>import_markets_to_neo4j\<close> (lines 333-451) on the documents of the collection: an empty
  collection ends the function after a warning, without statistics.
\<close>

definition import_markets_to_neo4j ::
    "(pyval \<Rightarrow> string) \<Rightarrow> document list \<Rightarrow> graph \<Rightarrow> int \<Rightarrow> graph \<times> report option" where
  "import_markets_to_neo4j str_of docs g batch_size =
     (if length docs = 0 then (g, None)
      else
        (case import_loop str_of batch_size docs [] (g, no_stats) of
           (g', st) \<Rightarrow> (g', Some (final_report g' st (length docs)))))"

section \<open>Connections and the main function\<close>

text \<open>
  What the script finds when it starts: the environment, the readiness of each store at
  each connection attempt (numbered from 1), the documents of the collection, the graph,
  and the answer typed at the prompt (\<open>None\<close> when there is no input to read).
\<close>

record world =
  env :: "string \<rightharpoonup> string"
  mongo_ready :: "nat \<Rightarrow> bool"
  neo4j_ready :: "nat \<Rightarrow> bool"
  collection :: "document list"
  target :: graph
  answer :: "string option"

text \<open>\<^verbatim>\<open>os.getenv(var)\<close> followed by \<^verbatim>\<open>if not value\<close>: unset or empty.\<close>

definition env_set :: "(string \<rightharpoonup> string) \<Rightarrow> string \<Rightarrow> bool" where
  "env_set e var = (case e var of None \<Rightarrow> False | Some value \<Rightarrow> value \<noteq> [])"

text \<open>Lines 42-77.\<close>

definition required_vars :: "string list" where
  "required_vars = [''MONGO_URI'', ''DB2'', ''NEO4J_URI'', ''NEO4J_USER'', ''NEO4J_PASSWORD'']"

definition check_environment_variables :: "(string \<rightharpoonup> string) \<Rightarrow> bool" where
  "check_environment_variables e = (filter (\<lambda>var. \<not> env_set e var) required_vars = [])"

text \<open>
  The result of a connection function: whether a client is returned, how many attempts
  were made and how many seconds were spent in \<^verbatim>\<open>time.sleep\<close>.
\<close>

record connection =
  connected :: bool
  attempts :: nat
  slept :: nat

text \<open>Lines 80-102: one attempt, no loop.\<close>

definition connect_mongodb :: "world \<Rightarrow> connection" where
  "connect_mongodb w =
     (if \<not> env_set (env w) ''MONGO_URI'' then \<lparr>connected = False, attempts = 0, slept = 0\<rparr>
      else \<lparr>connected = mongo_ready w 1, attempts = 1, slept = 0\<rparr>)"

text \<open>
  Lines 113-133: the loop \<^verbatim>\<open>for attempt in range(1, max_retries + 1)\<close>, over the attempt
  numbers still to come.
\<close>

fun retry_loop :: "(nat \<Rightarrow> bool) \<Rightarrow> nat \<Rightarrow> nat \<Rightarrow> nat list \<Rightarrow> connection" where
  "retry_loop ready max_retries retry_delay [] = \<lparr>connected = False, attempts = 0, slept = 0\<rparr>"
| "retry_loop ready max_retries retry_delay (attempt # rest) =
     (if ready attempt then \<lparr>connected = True, attempts = 1, slept = 0\<rparr>
      else if attempt < max_retries then
        (let c = retry_loop ready max_retries retry_delay rest
         in c\<lparr>attempts := attempts c + 1, slept := slept c + retry_delay\<rparr>)
      else \<lparr>connected = False, attempts = 1, slept = 0\<rparr>)"

definition connect_neo4j :: "world \<Rightarrow> nat \<Rightarrow> nat \<Rightarrow> connection" where
  "connect_neo4j w max_retries retry_delay =
     retry_loop (neo4j_ready w) max_retries retry_delay [1..<max_retries + 1]"

text \<open>
  Lines 136-163: a graph that holds nodes is emptied when \<open>auto_clear\<close> is set or when
  the answer at the prompt, in lower case, is \<^verbatim>\<open>y\<close>.
\<close>

definition clear_neo4j_graph :: "graph \<Rightarrow> bool \<Rightarrow> string option \<Rightarrow> graph" where
  "clear_neo4j_graph g auto_clear ans =
     (if 0 < length (nodes g) then
        (if auto_clear then empty_graph
         else
           (case ans of
              Some choice \<Rightarrow> if map lower choice = ''y'' then empty_graph else g
            | None \<Rightarrow> g))
      else g)"

text \<open>\<^verbatim>\<open>os.getenv('NEO4J_URI', '').startswith('bolt://neo4j:')\<close>.\<close>

definition is_docker :: "(string \<rightharpoonup> string) \<Rightarrow> bool" where
  "is_docker e =
     (case e ''NEO4J_URI'' of
        None \<Rightarrow> False
      | Some uri \<Rightarrow> take (length ''bolt://neo4j:'') uri = ''bolt://neo4j:'')"

text \<open>
  What a run leaves behind: the exit status of the process, the graph, the statistics
  printed (if any) and the two connection results (\<open>None\<close> when the function was not
  called).
\<close>

record outcome =
  exit_code :: nat
  graph_after :: graph
  printed :: "report option"
  mongo :: "connection option"
  neo4j :: "connection option"

text \<open>
  \<^verbatim>\<open>main\<close> (lines 454-495), with the defaults of the functions it calls: 30 attempts and
  2 seconds for \<^verbatim>\<open>connect_neo4j\<close>, batches of 100.
\<close>

definition main :: "(pyval \<Rightarrow> string) \<Rightarrow> world \<Rightarrow> outcome" where
  "main str_of w =
     (if \<not> check_environment_variables (env w) then
        \<lparr>exit_code = 1, graph_after = target w, printed = None, mongo = None, neo4j = None\<rparr>
      else
        (let mc = connect_mongodb w in
         if \<not> connected mc then
           \<lparr>exit_code = 1, graph_after = target w, printed = None, mongo = Some mc, neo4j = None\<rparr>
         else
           (let nc = connect_neo4j w 30 2 in
            if \<not> connected nc then
              \<lparr>exit_code = 1, graph_after = target w, printed = None, mongo = Some mc,
               neo4j = Some nc\<rparr>
            else
              (case import_markets_to_neo4j str_of (collection w)
                      (clear_neo4j_graph (target w) (is_docker (env w)) (answer w)) 100 of
                 (g, r) \<Rightarrow>
                   \<lparr>exit_code = 0, graph_after = g, printed = r, mongo = Some mc,
                    neo4j = Some nc\<rparr>))))"

section \<open>The skeleton of a graph\<close>

text \<open>
  The counts of nodes and edges depend only on the label and the key of each node and on
  the edges. The skeleton of a graph keeps just that, and the queries of the writer act on
  it by the functions below; the lemmas of the next section show that they agree with the
  writer (\<open>shape_process_batch\<close>).
\<close>

definition key_name :: "label \<Rightarrow> string" where
  "key_name l = (case l of Market \<Rightarrow> ''id'' | Category \<Rightarrow> ''name'' | Series \<Rightarrow> ''slug'')"

type_synonym skeleton = "(label \<times> pyval option) list \<times> (nat \<times> rel_type \<times> nat) list"

definition skel :: "node \<Rightarrow> label \<times> pyval option" where
  "skel n = (label n, props n (key_name (label n)))"

definition shape :: "graph \<Rightarrow> skeleton" where
  "shape g = (map skel (nodes g), rels g)"

definition positions :: "'a list \<Rightarrow> 'a \<Rightarrow> nat list" where
  "positions xs x = filter (\<lambda>i. xs ! i = x) [0..<length xs]"

definition sk_merge_node :: "label \<Rightarrow> pyval \<Rightarrow> skeleton \<Rightarrow> skeleton \<times> nat list" where
  "sk_merge_node l v sh =
     (case positions (fst sh) (l, Some v) of
        [] \<Rightarrow> ((fst sh @ [(l, Some v)], snd sh), [length (fst sh)])
      | i # is \<Rightarrow> (sh, i # is))"

definition sk_merge_rel :: "rel_type \<Rightarrow> nat \<times> nat \<Rightarrow> skeleton \<Rightarrow> skeleton" where
  "sk_merge_rel t ab sh =
     (if (fst ab, t, snd ab) \<in> set (snd sh) then sh
      else (fst sh, snd sh @ [(fst ab, t, snd ab)]))"

definition sk_link :: "label \<Rightarrow> rel_type \<Rightarrow> pyval \<Rightarrow> pyval \<Rightarrow> skeleton \<Rightarrow> skeleton" where
  "sk_link l t mid v sh =
     (case positions (fst sh) (Market, Some mid) of
        [] \<Rightarrow> sh
      | m # ms \<Rightarrow>
          (case sk_merge_node l v sh of
             (sh', cs) \<Rightarrow> fold (sk_merge_rel t) (List.product (m # ms) cs) sh'))"

definition sk_category :: "pyval \<Rightarrow> pyval \<Rightarrow> skeleton \<Rightarrow> skeleton" where
  "sk_category mid category sh =
     (if truthy category then sk_link Category BELONGS_TO mid category sh else sh)"

definition sk_series :: "pyval \<Rightarrow> pyval \<Rightarrow> skeleton \<Rightarrow> skeleton" where
  "sk_series mid series_slug sh =
     (if truthy series_slug then sk_link Series IN_SERIES mid series_slug sh else sh)"

text \<open>A document whose normalisation raises nothing.\<close>

definition normalizes :: "document \<Rightarrow> bool" where
  "normalizes market_data = (case market_params market_data of Inl e \<Rightarrow> False | Inr kvs \<Rightarrow> True)"

definition sk_document :: "(pyval \<Rightarrow> string) \<Rightarrow> document \<Rightarrow> skeleton \<Rightarrow> skeleton" where
  "sk_document str_of market_data sh =
     (if normalizes market_data then
        sk_series (market_id str_of market_data) (dict_get market_data ''seriesSlug'' PNone)
          (sk_category (market_id str_of market_data) (dict_get market_data ''category'' PNone)
             (fst (sk_merge_node Market (market_id str_of market_data) sh)))
      else sh)"





section \<open>Properties\<close>

subsection \<open>The queries on the graph\<close>

lemma match_nodes_Nil_iff:
  "match_nodes g l k v = [] \<longleftrightarrow> (\<forall>n \<in> set (nodes g). \<not> matches l k v n)"
  by (auto simp: match_nodes_def filter_empty_conv in_set_conv_nth) (metis nth_mem)



lemma match_nodes_snoc:
  assumes "nodes g' = nodes g @ [n]"
  shows "match_nodes g' l k v =
     match_nodes g l k v @ (if matches l k v n then [length (nodes g)] else [])"
proof -
  have "filter (\<lambda>i. matches l k v ((nodes g @ [n]) ! i)) [0..<length (nodes g)] =
        filter (\<lambda>i. matches l k v (nodes g ! i)) [0..<length (nodes g)]"
    by (rule filter_cong) (auto simp: nth_append)
  then show ?thesis
    by (simp add: match_nodes_def assms)
qed

lemma match_nodes_cong_nodes:
  "nodes g' = nodes g \<Longrightarrow> match_nodes g' l k v = match_nodes g l k v"
  by (simp add: match_nodes_def)

lemma nodes_fold_merge_rel [simp]: "nodes (fold (merge_rel t) ps g) = nodes g"
  by (induction ps arbitrary: g) (auto simp: merge_rel_def)

lemma set_rels_fold_merge_rel:
  "set (rels (fold (merge_rel t) ps g)) = set (rels g) \<union> (\<lambda>p. (fst p, t, snd p)) ` set ps"
  by (induction ps arbitrary: g) (auto simp: merge_rel_def)

lemma distinct_rels_fold_merge_rel:
  "distinct (rels g) \<Longrightarrow> distinct (rels (fold (merge_rel t) ps g))"
  by (induction ps arbitrary: g) (auto simp: merge_rel_def)

lemma fold_merge_rel_present:
  "\<forall>p \<in> set ps. (fst p, t, snd p) \<in> set (rels g) \<Longrightarrow> fold (merge_rel t) ps g = g"
  by (induction ps arbitrary: g) (auto simp: merge_rel_def)

lemma link_query_no_market:
  "match_nodes g Market ''id'' mid = [] \<Longrightarrow> link_query l k t mid v g = g"
  by (simp add: link_query_def)

lemma merge_node_cases:
  "merge_node l k v g = (g', cs) \<Longrightarrow>
     rels g' = rels g \<and> cs = match_nodes g' l k v \<and> cs \<noteq> [] \<and>
     (if match_nodes g l k v = [] then nodes g' = nodes g @ [\<lparr>label = l, props = [k \<mapsto> v]\<rparr>]
      else g' = g)"
  by (auto simp: merge_node_def match_nodes_snoc matches_def split: list.splits)

lemma link_query_Cons:
  "match_nodes g Market ''id'' mid = m # ms \<Longrightarrow> merge_node l k v g = (g', cs) \<Longrightarrow>
     link_query l k t mid v g = fold (merge_rel t) (List.product (m # ms) cs) g'"
  by (simp add: link_query_def del: List.product.simps)

lemma link_query_idem:
  assumes "l \<noteq> Market"
  shows "link_query l k t mid v (link_query l k t mid v g) = link_query l k t mid v g"
proof (cases "match_nodes g Market ''id'' mid")
  case Nil
  then show ?thesis by (simp add: link_query_def)
next
  case (Cons m ms)
  obtain g' cs where mn: "merge_node l k v g = (g', cs)"
    by (cases "merge_node l k v g")
  note f = merge_node_cases [OF mn]
  let ?g2 = "fold (merge_rel t) (List.product (m # ms) cs) g'"
  have lq: "link_query l k t mid v g = ?g2"
    by (rule link_query_Cons [OF Cons mn])
  have mk': "match_nodes g' Market ''id'' mid = m # ms"
    using f Cons assms by (auto simp: match_nodes_snoc [of g' g] matches_def split: if_splits)
  have mk2: "match_nodes ?g2 Market ''id'' mid = m # ms"
    using mk' by (simp add: match_nodes_def)
  have cs2: "match_nodes ?g2 l k v = cs"
    using f by (simp add: match_nodes_def)
  then have mn2: "merge_node l k v ?g2 = (?g2, cs)"
    using f by (auto simp: merge_node_def split: list.splits)
  have "fold (merge_rel t) (List.product (m # ms) cs) ?g2 = ?g2"
    by (rule fold_merge_rel_present) (auto simp: set_rels_fold_merge_rel)
  then show ?thesis
    unfolding lq by (simp only: link_query_Cons [OF mk2 mn2])
qed

lemma merge_node_facts:
  assumes "merge_node l k v g = (g', cs)"
  shows "rels g' = rels g" and "cs = match_nodes g' l k v" and "cs \<noteq> []"
    and "nodes g' =
      nodes g @ (if match_nodes g l k v = [] then [\<lparr>label = l, props = [k \<mapsto> v]\<rparr>] else [])"
  using merge_node_cases [OF assms] by (auto split: if_splits)

subsection \<open>Skeletons: a second import changes nothing\<close>

lemma set_positions: "set (positions xs x) = {i. i < length xs \<and> xs ! i = x}"
  by (auto simp: positions_def)













lemma fst_fold_sk_merge_rel [simp]: "fst (fold (sk_merge_rel t) ps sh) = fst sh"
  by (induction ps arbitrary: sh) (auto simp: sk_merge_rel_def)




lemma sk_link_Cons:
  "positions (fst sh) (Market, Some mid) = m # ms \<Longrightarrow> sk_merge_node l v sh = (sh', cs) \<Longrightarrow>
     sk_link l t mid v sh = fold (sk_merge_rel t) (List.product (m # ms) cs) sh'"
  by (simp add: sk_link_def del: List.product.simps)













subsection \<open>The writer acts on the skeleton as the skeleton functions do\<close>

lemma set_properties_other:
  "k \<notin> fst ` set kvs \<Longrightarrow> set_properties kvs m k = m k"
  unfolding set_properties_def
  by (induction kvs arbitrary: m) auto

lemma market_params_keys:
  assumes "market_params d = Inr kvs"
  shows "map fst kvs =
    [''title'', ''description'', ''slug'', ''ticker'', ''volume'', ''commentCount'', ''image'',
     ''icon'', ''resolutionSource'', ''publishedAt'', ''updatedAt'', ''startDate'', ''endDate'',
     ''createdAt'', ''closedTime'']"
  using assms unfolding market_params_def bind_err_def
  by (auto split: sum.splits)

lemma market_params_no_id:
  assumes "market_params d = Inr kvs"
  shows "''id'' \<notin> fst ` set kvs"
proof -
  have "fst ` set kvs = set (map fst kvs)"
    by simp
  then show ?thesis
    unfolding market_params_keys [OF assms] by simp
qed

lemma match_nodes_positions:
  "match_nodes g l (key_name l) v = positions (fst (shape g)) (l, Some v)"
  unfolding match_nodes_def positions_def shape_def
  by (auto intro!: filter_cong simp: skel_def matches_def)

lemma shape_merge_node:
  "shape (fst (merge_node l (key_name l) v g)) = fst (sk_merge_node l v (shape g)) \<and>
   snd (merge_node l (key_name l) v g) = snd (sk_merge_node l v (shape g))"
proof (cases "positions (fst (shape g)) (l, Some v)")
  case Nil
  then show ?thesis
    by (simp add: merge_node_def sk_merge_node_def match_nodes_positions)
       (simp add: shape_def skel_def)
next
  case (Cons i ks)
  then show ?thesis
    by (simp add: merge_node_def sk_merge_node_def match_nodes_positions)
qed

lemma shape_merge_rel: "shape (merge_rel t ab g) = sk_merge_rel t ab (shape g)"
  by (simp add: merge_rel_def sk_merge_rel_def shape_def)

lemma shape_fold_merge_rel:
  "shape (fold (merge_rel t) ps g) = fold (sk_merge_rel t) ps (shape g)"
  by (induction ps arbitrary: g) (simp_all add: shape_merge_rel)

lemma shape_link_query:
  "shape (link_query l (key_name l) t mid v g) = sk_link l t mid v (shape g)"
proof (cases "positions (fst (shape g)) (Market, Some mid)")
  case Nil
  then have "match_nodes g Market ''id'' mid = []"
    using match_nodes_positions [of g Market mid] by (simp add: key_name_def)
  then show ?thesis
    using Nil by (simp add: link_query_def sk_link_def)
next
  case (Cons m ms)
  then have mk: "match_nodes g Market ''id'' mid = m # ms"
    using match_nodes_positions [of g Market mid] by (simp add: key_name_def)
  obtain g' cs where mn: "merge_node l (key_name l) v g = (g', cs)"
    by (cases "merge_node l (key_name l) v g")
  obtain sh' cs' where smn: "sk_merge_node l v (shape g) = (sh', cs')"
    by (cases "sk_merge_node l v (shape g)")
  have e: "shape g' = sh'" "cs = cs'"
    using shape_merge_node [of l v g] by (simp_all add: mn smn)
  show ?thesis
    unfolding sk_link_Cons [OF Cons smn]
    by (simp add: link_query_def mk mn shape_fold_merge_rel e del: List.product.simps)
qed

lemma skel_set_properties:
  "key_name (label n) \<notin> fst ` set kvs \<Longrightarrow>
     skel (n\<lparr>props := set_properties kvs (props n)\<rparr>) = skel n"
  by (simp add: skel_def set_properties_other)

lemma map_skel_fold_update:
  assumes "\<forall>i \<in> set ks. i < length ns \<and> key_name (label (ns ! i)) \<notin> fst ` set kvs"
  shows "map skel (fold (\<lambda>i ns. ns[i := (ns ! i)\<lparr>props := set_properties kvs (props (ns ! i))\<rparr>]) ks ns)
           = map skel ns \<and>
         map label (fold (\<lambda>i ns. ns[i := (ns ! i)\<lparr>props := set_properties kvs (props (ns ! i))\<rparr>]) ks ns)
           = map label ns"
  using assms
proof (induction ks arbitrary: ns)
  case Nil
  then show ?case by simp
next
  case (Cons i ks)
  let ?ns1 = "ns[i := (ns ! i)\<lparr>props := set_properties kvs (props (ns ! i))\<rparr>]"
  have i: "i < length ns" "key_name (label (ns ! i)) \<notin> fst ` set kvs"
    using Cons.prems by auto
  have sk: "map skel ?ns1 = map skel ns"
    using i by (simp add: map_update skel_set_properties list_update_same_conv)
  have lb: "map label ?ns1 = map label ns"
    using i by (simp add: map_update list_update_same_conv)
  have "\<forall>j \<in> set ks. j < length ?ns1 \<and> key_name (label (?ns1 ! j)) \<notin> fst ` set kvs"
  proof
    fix j assume j: "j \<in> set ks"
    then have jl: "j < length ns" and jk: "key_name (label (ns ! j)) \<notin> fst ` set kvs"
      using Cons.prems by auto
    have "label (?ns1 ! j) = label (ns ! j)"
      using jl by (cases "j = i") auto
    then show "j < length ?ns1 \<and> key_name (label (?ns1 ! j)) \<notin> fst ` set kvs"
      using jl jk by simp
  qed
  from Cons.IH [OF this] show ?case
    using sk lb by simp
qed

lemma shape_set_nodes:
  assumes "\<forall>i \<in> set ks. i < length (nodes g) \<and> key_name (label (nodes g ! i)) \<notin> fst ` set kvs"
  shows "shape (set_nodes ks kvs g) = shape g"
  using map_skel_fold_update [OF assms] by (simp add: shape_def set_nodes_def)

lemma shape_market_query:
  assumes "''id'' \<notin> fst ` set kvs"
  shows "shape (market_query mid kvs g) = fst (sk_merge_node Market mid (shape g))"
proof -
  obtain g' ms where mn: "merge_node Market ''id'' mid g = (g', ms)"
    by (cases "merge_node Market ''id'' mid g")
  have ms: "ms = match_nodes g' Market ''id'' mid"
    using merge_node_cases [OF mn] by simp
  have "\<forall>i \<in> set ms. i < length (nodes g') \<and> key_name (label (nodes g' ! i)) \<notin> fst ` set kvs"
    using assms unfolding ms by (auto simp: match_nodes_def matches_def key_name_def)
  then have "shape (set_nodes ms kvs g') = shape g'"
    by (rule shape_set_nodes)
  moreover have "shape g' = fst (sk_merge_node Market mid (shape g))"
    using shape_merge_node [of Market mid g] by (simp add: key_name_def mn)
  ultimately show ?thesis
    by (simp add: market_query_def mn)
qed

lemma shape_process_document:
  "shape (fst (process_document str_of d (g, st))) = sk_document str_of d (shape g)"
proof (cases "market_params d")
  case (Inl e)
  then show ?thesis
    by (simp add: process_document_def create_market_node_def bind_err_def sk_document_def
        normalizes_def Let_def)
next
  case (Inr kvs)
  let ?mid = "market_id str_of d"
  let ?g1 = "market_query ?mid kvs g"
  have c: "create_market_node str_of g d = Inr (?g1, ?mid)"
    by (simp add: create_market_node_def Inr bind_err_def Let_def)
  have n: "normalizes d"
    by (simp add: normalizes_def Inr)
  have s1: "shape ?g1 = fst (sk_merge_node Market ?mid (shape g))"
    by (rule shape_market_query [OF market_params_no_id [OF Inr]])
  have cat: "shape (create_category_relationship g' ?mid v) = sk_category ?mid v (shape g')" for g' v
    using shape_link_query [of Category BELONGS_TO ?mid v g']
    by (simp add: create_category_relationship_def sk_category_def key_name_def)
  have ser: "shape (create_series_relationship g' ?mid v) = sk_series ?mid v (shape g')" for g' v
    using shape_link_query [of Series IN_SERIES ?mid v g']
    by (simp add: create_series_relationship_def sk_series_def key_name_def)
  show ?thesis
    using n by (simp add: process_document_def c Let_def sk_document_def s1 cat ser
        sk_category_def sk_series_def)
qed

lemma shape_process_batch:
  "shape (fst (process_batch str_of docs gs)) = fold (sk_document str_of) docs (shape (fst gs))"
  unfolding process_batch_def
proof (induction docs arbitrary: gs)
  case Nil
  then show ?case by simp
next
  case (Cons d docs)
  obtain g st where gs: "gs = (g, st)"
    by (cases gs)
  show ?case
    using Cons [of "process_document str_of d (g, st)"] shape_process_document [of str_of d g st]
    by (simp add: gs)
qed


lemma count_label_shape:
  "count_label g l = length (filter (\<lambda>x. fst x = l) (fst (shape g)))"
  by (simp add: count_label_def shape_def filter_map comp_def skel_def)


subsection \<open>Documents that normalise, and the effect of a link query\<close>

lemma parse_date_None: "parse_date PNone = Inr None"
  by (simp add: parse_date_def)

lemma normalizes_plain:
  assumes "map_of d ''volume'' = None" "map_of d ''commentCount'' = None"
    "map_of d ''startDate'' = None" "map_of d ''endDate'' = None" "map_of d ''createdAt'' = None"
    "map_of d ''creationDate'' = None" "map_of d ''closedTime'' = None"
  shows "normalizes d"
  using assms
  by (simp add: normalizes_def market_params_def bind_err_def volume_def dict_get_def
      start_date_def end_date_def created_at_def closed_time_def py_or_def parse_date_None
      comment_count_param_def)

lemmas sk_eval = sk_document_def sk_category_def sk_series_def sk_link_def sk_merge_node_def
  sk_merge_rel_def positions_def market_id_def dict_get_def

lemma shape_empty_graph: "shape empty_graph = ([], [])"
  by (simp add: shape_def empty_graph_def)

lemma link_query_effect:
  fixes g :: graph and l k t mid v
  assumes m: "match_nodes g Market ''id'' mid \<noteq> []" and l: "l \<noteq> Market"
  defines "g' \<equiv> link_query l k t mid v g"
  shows "nodes g' =
           nodes g @ (if match_nodes g l k v = [] then [\<lparr>label = l, props = [k \<mapsto> v]\<rparr>] else [])"
    and "match_nodes g' l k v \<noteq> []"
    and "\<forall>a \<in> set (match_nodes g' Market ''id'' mid). \<forall>c \<in> set (match_nodes g' l k v).
           (a, t, c) \<in> set (rels g')"
    and "distinct (rels g) \<longrightarrow> distinct (rels g')"
proof -
  obtain m0 ms where Cons: "match_nodes g Market ''id'' mid = m0 # ms"
    using m by (cases "match_nodes g Market ''id'' mid") auto
  obtain g1 cs where mn: "merge_node l k v g = (g1, cs)"
    by (cases "merge_node l k v g")
  note f = merge_node_facts [OF mn]
  have g': "g' = fold (merge_rel t) (List.product (m0 # ms) cs) g1"
    unfolding g'_def by (rule link_query_Cons [OF Cons mn])
  show "nodes g' =
      nodes g @ (if match_nodes g l k v = [] then [\<lparr>label = l, props = [k \<mapsto> v]\<rparr>] else [])"
    by (simp add: g' f(4))
  have ng: "nodes g' = nodes g1"
    by (simp add: g')
  have cs: "match_nodes g' l k v = cs"
    using f(2) match_nodes_cong_nodes [OF ng, of l k v] by simp
  show "match_nodes g' l k v \<noteq> []"
    using f(3) cs by simp
  have mk1: "match_nodes g1 Market ''id'' mid = m0 # ms"
  proof (cases "match_nodes g l k v = []")
    case True
    then have "nodes g1 = nodes g @ [\<lparr>label = l, props = [k \<mapsto> v]\<rparr>]"
      using f(4) by simp
    from match_nodes_snoc [OF this, of Market "''id''" mid] show ?thesis
      using l Cons by (simp add: matches_def)
  next
    case False
    then have "nodes g1 = nodes g"
      using f(4) by simp
    from match_nodes_cong_nodes [OF this, of Market "''id''" mid] show ?thesis
      using Cons by simp
  qed
  have mk: "match_nodes g' Market ''id'' mid = m0 # ms"
    using mk1 match_nodes_cong_nodes [OF ng, of Market "''id''" mid] by simp
  show "\<forall>a \<in> set (match_nodes g' Market ''id'' mid). \<forall>c \<in> set (match_nodes g' l k v).
           (a, t, c) \<in> set (rels g')"
  proof (intro ballI)
    fix a c
    assume "a \<in> set (match_nodes g' Market ''id'' mid)" and "c \<in> set (match_nodes g' l k v)"
    then have "(a, c) \<in> set (List.product (m0 # ms) cs)"
      by (simp add: mk cs del: List.product.simps)
    then have "(fst (a, c), t, snd (a, c)) \<in> (\<lambda>p. (fst p, t, snd p)) ` set (List.product (m0 # ms) cs)"
      by (rule imageI)
    then show "(a, t, c) \<in> set (rels g')"
      by (simp add: g' set_rels_fold_merge_rel del: List.product.simps)
  qed
  show "distinct (rels g) \<longrightarrow> distinct (rels g')"
    using f(1) by (simp add: g' distinct_rels_fold_merge_rel)
qed

subsection \<open>Numeric fields\<close>

lemmas literal_eval = float_of_str_def int_of_str_def strip_def is_num_space_def sign_of_def lower_def
  floatnumber_def digitpart_def is_digit_def exponent_def dec_value_def digit_val_def pow10_def

lemma float_of_str_42_5: "float_of_str ''42.5'' = Some (Finite (85 / 2))"
  by (simp add: literal_eval to_double_def)

lemma float_of_str_abc: "float_of_str ''abc'' = None"
  by (simp add: literal_eval)

lemma int_of_str_abc: "int_of_str ''abc'' = None"
  by (simp add: literal_eval)

lemma float_of_str_separator:
  "float_of_str [CHR 0x1C, CHR ''1'', CHR ''.'', CHR ''5''] = None"
  "float_of_str [CHR 0xA0, CHR ''1'', CHR ''.'', CHR ''5'', CHR '' ''] = Some (Finite (3 / 2))"
  by (simp_all add: literal_eval to_double_def)

lemma volume_boxed:
  assumes "map_of market_data ''volume'' = Some (PDict box)"
    and "map_of box ''$numberDouble'' = Some (PStr s)"
  shows "volume_param market_data =
     Inr (if s = ''Infinity'' then PosInf
          else if s = ''-Infinity'' then NegInf
          else if s = ''NaN'' then NaN
          else case float_of_str s of Some f \<Rightarrow> f | None \<Rightarrow> Finite 0)"
  using assms
  by (auto simp: volume_param_def volume_def dict_get_def bind_err_def split: option.splits)

lemma market_params_volume:
  assumes "market_params market_data = Inr kvs"
  shows "\<exists>f. volume_param market_data = Inr f \<and> map_of kvs ''volume'' = Some (PFloat f)"
  using assms unfolding market_params_def volume_param_def bind_err_def
  by (auto split: sum.splits)

subsection \<open>Dates\<close>

lemmas regex_eval = directive_of_def is_space_def alternatives_def rng_def blank_def is_digit_def
  digit_val_def lower_def

lemmas strptime_eval = field_def fraction_def dec_value_def digit_val_def is_digit_def
  days_in_month_def is_leap_def

lemma try_formats_first:
  "i < length fmts \<Longrightarrow> strptime s (fmts ! i) = Some dt \<Longrightarrow>
     \<forall>j<i. strptime s (fmts ! j) = None \<Longrightarrow> try_formats s fmts = Some dt"
proof (induction fmts arbitrary: i)
  case Nil
  then show ?case by simp
next
  case (Cons fmt fmts)
  show ?case
  proof (cases i)
    case 0
    then show ?thesis
      using Cons.prems by simp
  next
    case (Suc k)
    have "strptime s fmt = None"
      using Cons.prems(3) Suc by auto
    moreover have "try_formats s fmts = Some dt"
    proof (rule Cons.IH [of k])
      show "k < length fmts" using Cons.prems(1) Suc by simp
      show "strptime s (fmts ! k) = Some dt" using Cons.prems(2) Suc by simp
      show "\<forall>j<k. strptime s (fmts ! j) = None"
        using Cons.prems(3) Suc by auto
    qed
    ultimately show ?thesis by simp
  qed
qed

lemma try_formats_none:
  "\<forall>fmt \<in> set fmts. strptime s fmt = None \<Longrightarrow> try_formats s fmts = None"
  by (induction fmts) auto

lemma strptime_empty: "fmt \<in> set formats \<Longrightarrow> strptime [] fmt = None"
  by (auto simp: formats_def strptime_def regex_eval)

lemma parse_date_str: "parse_date (PStr s) = Inr (if s = [] then None else try_formats s formats)"
  by (simp add: parse_date_def)

lemma try_formats_empty: "try_formats [] formats = None"
  by (rule try_formats_none) (simp add: strptime_empty)

lemma parse_date_not_a_date: "parse_date (PStr ''not-a-date'') = Inr None"
  by (simp add: parse_date_def formats_def strptime_def regex_eval)

lemma parse_date_garbage: "parse_date (PStr ''garbage'') = Inr None"
  by (simp add: parse_date_def formats_def strptime_def regex_eval)

lemma regex_match_iso_micro:
  "regex_match (compile_format ''%Y-%m-%dT%H:%M:%S.%fZ'') ''2026-01-01T00:00:00.000000Z'' =
     Some ([(Dir_Y, ''2026''), (Dir_m, ''01''), (Dir_d, ''01''), (Dir_H, ''00''), (Dir_M, ''00''),
            (Dir_S, ''00''), (Dir_f, ''000000'')], [])"
  by (simp add: regex_eval)

lemma strptime_iso_micro:
  "strptime ''2026-01-01T00:00:00.000000Z'' ''%Y-%m-%dT%H:%M:%S.%fZ'' =
     Some \<lparr>year = 2026, month = 1, day = 1, hour = 0, minute = 0, second = 0, microsecond = 0\<rparr>"
  unfolding strptime_def regex_match_iso_micro
  by (simp add: strptime_eval)

lemma parse_date_iso_micro:
  "parse_date (PStr ''2026-01-01T00:00:00.000000Z'') =
     Inr (Some \<lparr>year = 2026, month = 1, day = 1, hour = 0, minute = 0, second = 0, microsecond = 0\<rparr>)"
  by (simp add: parse_date_def formats_def strptime_iso_micro)

lemma strptime_day_others:
  "strptime ''2026-01-01'' ''%Y-%m-%dT%H:%M:%S.%fZ'' = None"
  "strptime ''2026-01-01'' ''%Y-%m-%dT%H:%M:%SZ'' = None"
  "strptime ''2026-01-01'' ''%Y-%m-%d %H:%M:%S'' = None"
  by (simp_all add: strptime_def regex_eval)

lemma regex_match_day:
  "regex_match (compile_format ''%Y-%m-%d'') ''2026-01-01'' =
     Some ([(Dir_Y, ''2026''), (Dir_m, ''01''), (Dir_d, ''01'')], [])"
  by (simp add: regex_eval)

lemma strptime_day:
  "strptime ''2026-01-01'' ''%Y-%m-%d'' =
     Some \<lparr>year = 2026, month = 1, day = 1, hour = 0, minute = 0, second = 0, microsecond = 0\<rparr>"
  unfolding strptime_def regex_match_day
  by (simp add: strptime_eval)

lemma parse_date_day:
  "parse_date (PStr ''2026-01-01'') =
     Inr (Some \<lparr>year = 2026, month = 1, day = 1, hour = 0, minute = 0, second = 0, microsecond = 0\<rparr>)"
  by (simp add: parse_date_def formats_def strptime_day strptime_day_others)

lemma pad_2: "pad 2 n = [digit_char (n div 10 mod 10), digit_char (n mod 10)]"
  by (simp add: numeral_2_eq_2)

lemma pad_4:
  "pad 4 n = [digit_char (n div 10 div 10 div 10 mod 10), digit_char (n div 10 div 10 mod 10),
              digit_char (n div 10 mod 10), digit_char (n mod 10)]"
proof -
  have "(4::nat) = Suc (Suc (Suc (Suc 0)))"
    by simp
  then show ?thesis by (simp only: pad.simps append.simps)
qed

lemma isoformat_midnight:
  "isoformat \<lparr>year = 2026, month = 1, day = 1, hour = 0, minute = 0, second = 0, microsecond = 0\<rparr> =
     ''2026-01-01T00:00:00''"
  by (simp add: isoformat_def digit_char_def pad_2 pad_4)

lemma market_params_created_at:
  assumes "market_params market_data = Inr kvs"
  shows "\<exists>ca. created_at market_data = Inr ca \<and> map_of kvs ''createdAt'' = Some (date_param ca)"
  using assms unfolding market_params_def bind_err_def
  by (auto split: sum.splits)

subsection \<open>The retry loop\<close>

lemma retry_loop_done:
  "retry_loop ready mx d [mx + 1..<mx + 1] = \<lparr>connected = False, attempts = 0, slept = 0\<rparr>"
  by simp

lemma retry_loop_step:
  assumes "a < mx + 1"
  shows "retry_loop ready mx d [a..<mx + 1] =
     (if ready a then \<lparr>connected = True, attempts = 1, slept = 0\<rparr>
      else if a < mx then
        (retry_loop ready mx d [Suc a..<mx + 1])
          \<lparr>attempts := attempts (retry_loop ready mx d [Suc a..<mx + 1]) + 1,
           slept := slept (retry_loop ready mx d [Suc a..<mx + 1]) + d\<rparr>
      else \<lparr>connected = False, attempts = 1, slept = 0\<rparr>)"
proof -
  have "[a..<mx + 1] = a # [Suc a..<mx + 1]"
    using assms by (simp add: upt_conv_Cons)
  then show ?thesis
    by (simp add: Let_def)
qed

lemma retry_attempts_pos:
  assumes "a < mx + 1"
  shows "0 < attempts (retry_loop ready mx d [a..<mx + 1])"
  unfolding retry_loop_step [OF assms] by simp

lemma retry_attempts_le:
  assumes "a \<le> mx + 1"
  shows "attempts (retry_loop ready mx d [a..<mx + 1]) \<le> mx + 1 - a"
  using assms
proof (induction a rule: inc_induct)
  case base
  show ?case by simp
next
  case (step n)
  define c where "c = retry_loop ready mx d [Suc n..<mx + 1]"
  have ih: "attempts c \<le> mx + 1 - Suc n"
    using step.IH by (simp only: c_def)
  show ?case
    unfolding retry_loop_step [OF step.hyps(2)] c_def [symmetric]
    using ih step.hyps(2) by auto
qed

lemma retry_slept:
  assumes "a \<le> mx + 1"
  shows "slept (retry_loop ready mx d [a..<mx + 1]) =
     d * (attempts (retry_loop ready mx d [a..<mx + 1]) - 1)"
  using assms
proof (induction a rule: inc_induct)
  case base
  show ?case by simp
next
  case (step n)
  show ?case
  proof (cases "\<not> ready n \<and> n < mx")
    case True
    then have "0 < attempts (retry_loop ready mx d [Suc n..<mx + 1])"
      using retry_attempts_pos [of "Suc n" mx ready d] by simp
    then obtain k where k: "attempts (retry_loop ready mx d [Suc n..<mx + 1]) = Suc k"
      by (cases "attempts (retry_loop ready mx d [Suc n..<mx + 1])") auto
    show ?thesis
      unfolding retry_loop_step [OF step.hyps(2)] using True step.IH k by simp
  next
    case False
    then show ?thesis
      unfolding retry_loop_step [OF step.hyps(2)] by auto
  qed
qed

lemma retry_connected_iff:
  assumes "a \<le> mx + 1"
  shows "connected (retry_loop ready mx d [a..<mx + 1]) \<longleftrightarrow> (\<exists>n. a \<le> n \<and> n \<le> mx \<and> ready n)"
  using assms
proof (induction a rule: inc_induct)
  case base
  show ?case by simp
next
  case (step n)
  have ex: "(\<exists>i. n \<le> i \<and> i \<le> mx \<and> ready i) \<longleftrightarrow> ready n \<or> (\<exists>i. Suc n \<le> i \<and> i \<le> mx \<and> ready i)"
  proof
    assume "\<exists>i. n \<le> i \<and> i \<le> mx \<and> ready i"
    then obtain i where i: "n \<le> i" "i \<le> mx" "ready i" by blast
    show "ready n \<or> (\<exists>i. Suc n \<le> i \<and> i \<le> mx \<and> ready i)"
    proof (cases "i = n")
      case True
      then show ?thesis using i by simp
    next
      case False
      then have "Suc n \<le> i" using i by simp
      then show ?thesis using i by blast
    qed
  next
    assume "ready n \<or> (\<exists>i. Suc n \<le> i \<and> i \<le> mx \<and> ready i)"
    then show "\<exists>i. n \<le> i \<and> i \<le> mx \<and> ready i"
    proof
      assume "ready n"
      then show ?thesis using step.hyps(2) by auto
    next
      assume "\<exists>i. Suc n \<le> i \<and> i \<le> mx \<and> ready i"
      then obtain i where "Suc n \<le> i" "i \<le> mx" "ready i" by blast
      then have "n \<le> i \<and> i \<le> mx \<and> ready i" by simp
      then show ?thesis by blast
    qed
  qed
  show ?case
  proof (cases "n < mx")
    case True
    then show ?thesis
      unfolding retry_loop_step [OF step.hyps(2)] ex using step.IH by simp
  next
    case False
    then have "n = mx" using step.hyps(2) by simp
    then have "\<not> (\<exists>i. Suc n \<le> i \<and> i \<le> mx \<and> ready i)" by auto
    then show ?thesis
      unfolding retry_loop_step [OF step.hyps(2)] ex using False by simp
  qed
qed

lemma retry_exhausted:
  assumes "a \<le> mx + 1"
  shows "\<not> connected (retry_loop ready mx d [a..<mx + 1]) \<Longrightarrow>
     attempts (retry_loop ready mx d [a..<mx + 1]) = mx + 1 - a"
  using assms
proof (induction a rule: inc_induct)
  case base
  show ?case by simp
next
  case (step n)
  have nr: "\<not> ready n"
    using step.prems unfolding retry_loop_step [OF step.hyps(2)] by (auto split: if_splits)
  show ?case
  proof (cases "n < mx")
    case True
    then have "\<not> connected (retry_loop ready mx d [Suc n..<mx + 1])"
      using step.prems nr unfolding retry_loop_step [OF step.hyps(2)] by simp
    from step.IH [OF this] show ?thesis
      unfolding retry_loop_step [OF step.hyps(2)] using nr True by simp
  next
    case False
    then have "n = mx" using step.hyps(2) by simp
    then show ?thesis
      unfolding retry_loop_step [OF step.hyps(2)] using nr by simp
  qed
qed

lemma retry_first:
  assumes "a \<le> mx + 1"
  shows "connected (retry_loop ready mx d [a..<mx + 1]) \<Longrightarrow>
     ready (a + attempts (retry_loop ready mx d [a..<mx + 1]) - 1) \<and>
     (\<forall>i. a \<le> i \<and> i < a + attempts (retry_loop ready mx d [a..<mx + 1]) - 1 \<longrightarrow> \<not> ready i)"
  using assms
proof (induction a rule: inc_induct)
  case base
  then show ?case by simp
next
  case (step n)
  show ?case
  proof (cases "ready n")
    case True
    then show ?thesis
      unfolding retry_loop_step [OF step.hyps(2)] by auto
  next
    case False
    note nr = False
    show ?thesis
    proof (cases "n < mx")
      case True
      let ?c = "retry_loop ready mx d [Suc n..<mx + 1]"
      have c: "connected ?c"
        using step.prems nr True unfolding retry_loop_step [OF step.hyps(2)] by simp
      note ih = step.IH [OF c]
      have e: "retry_loop ready mx d [n..<mx + 1] =
          ?c\<lparr>attempts := attempts ?c + 1, slept := slept ?c + d\<rparr>"
        unfolding retry_loop_step [OF step.hyps(2)] using nr True by simp
      have a: "n + (attempts ?c + 1) - 1 = Suc n + attempts ?c - 1"
        by simp
      have "\<not> ready i" if "n \<le> i \<and> i < Suc n + attempts ?c - 1" for i
      proof (cases "i = n")
        case True
        then show ?thesis using nr by simp
      next
        case False
        then have "Suc n \<le> i \<and> i < Suc n + attempts ?c - 1"
          using that by simp
        then show ?thesis using ih by blast
      qed
      then show ?thesis
        unfolding e using ih a by simp
    next
      case False
      then show ?thesis
        using step.prems nr unfolding retry_loop_step [OF step.hyps(2)] by simp
    qed
  qed
qed

lemma check_environment_variables_iff:
  "check_environment_variables e \<longleftrightarrow>
     env_set e ''MONGO_URI'' \<and> env_set e ''DB2'' \<and> env_set e ''NEO4J_URI'' \<and>
     env_set e ''NEO4J_USER'' \<and> env_set e ''NEO4J_PASSWORD''"
  by (auto simp: check_environment_variables_def required_vars_def)

lemma connect_neo4j_facts:
  "attempts (connect_neo4j w mx d) \<le> mx"
  "slept (connect_neo4j w mx d) = d * (attempts (connect_neo4j w mx d) - 1)"
  "connected (connect_neo4j w mx d) \<longleftrightarrow> (\<exists>n. 1 \<le> n \<and> n \<le> mx \<and> neo4j_ready w n)"
  "connected (connect_neo4j w mx d) \<Longrightarrow>
     neo4j_ready w (attempts (connect_neo4j w mx d)) \<and>
     (\<forall>n. 1 \<le> n \<and> n < attempts (connect_neo4j w mx d) \<longrightarrow> \<not> neo4j_ready w n)"
  "\<not> connected (connect_neo4j w mx d) \<Longrightarrow> attempts (connect_neo4j w mx d) = mx"
proof -
  have le: "(1::nat) \<le> mx + 1"
    by simp
  show "attempts (connect_neo4j w mx d) \<le> mx"
    using retry_attempts_le [OF le, of "neo4j_ready w" d] by (simp add: connect_neo4j_def)
  show "slept (connect_neo4j w mx d) = d * (attempts (connect_neo4j w mx d) - 1)"
    using retry_slept [OF le, of "neo4j_ready w" d] by (simp only: connect_neo4j_def)
  show "connected (connect_neo4j w mx d) \<longleftrightarrow> (\<exists>n. 1 \<le> n \<and> n \<le> mx \<and> neo4j_ready w n)"
    using retry_connected_iff [OF le, of "neo4j_ready w" d] by (simp only: connect_neo4j_def)
  show "connected (connect_neo4j w mx d) \<Longrightarrow>
     neo4j_ready w (attempts (connect_neo4j w mx d)) \<and>
     (\<forall>n. 1 \<le> n \<and> n < attempts (connect_neo4j w mx d) \<longrightarrow> \<not> neo4j_ready w n)"
    using retry_first [OF le, of "neo4j_ready w" d] by (simp add: connect_neo4j_def)
  show "\<not> connected (connect_neo4j w mx d) \<Longrightarrow> attempts (connect_neo4j w mx d) = mx"
    using retry_exhausted [OF le, of "neo4j_ready w" d] by (simp add: connect_neo4j_def)
qed

lemma printed_import:
  "snd (import_markets_to_neo4j str_of docs g b) = None \<longleftrightarrow> docs = []"
  by (simp add: import_markets_to_neo4j_def split: prod.splits)

lemma main_cases:
  "main str_of w =
     (if \<not> check_environment_variables (env w) then
        \<lparr>exit_code = 1, graph_after = target w, printed = None, mongo = None, neo4j = None\<rparr>
      else if \<not> mongo_ready w 1 then
        \<lparr>exit_code = 1, graph_after = target w, printed = None,
         mongo = Some \<lparr>connected = False, attempts = 1, slept = 0\<rparr>, neo4j = None\<rparr>
      else if \<not> connected (connect_neo4j w 30 2) then
        \<lparr>exit_code = 1, graph_after = target w, printed = None,
         mongo = Some \<lparr>connected = True, attempts = 1, slept = 0\<rparr>,
         neo4j = Some (connect_neo4j w 30 2)\<rparr>
      else
        \<lparr>exit_code = 0,
         graph_after = fst (import_markets_to_neo4j str_of (collection w)
            (clear_neo4j_graph (target w) (is_docker (env w)) (answer w)) 100),
         printed = snd (import_markets_to_neo4j str_of (collection w)
            (clear_neo4j_graph (target w) (is_docker (env w)) (answer w)) 100),
         mongo = Some \<lparr>connected = True, attempts = 1, slept = 0\<rparr>,
         neo4j = Some (connect_neo4j w 30 2)\<rparr>)"
  by (auto simp: main_def Let_def connect_mongodb_def check_environment_variables_iff
      split: prod.splits)

lemma within_30:
  "\<exists>n::nat. 1 \<le> n \<and> n \<le> 30"
  "\<exists>n::nat. 1 \<le> n \<and> n \<le> 30 \<and> 3 \<le> n"
  by (rule exI [of _ 3], simp)+

lemma env_ok:
  "check_environment_variables (map_of [(''MONGO_URI'', ''mongodb://atlas''), (''DB2'', ''polymarket''),
                    (''NEO4J_URI'', ''bolt://neo4j:7687''), (''NEO4J_USER'', ''neo4j''),
                    (''NEO4J_PASSWORD'', ''secret'')])"
  "env_set (map_of [(''MONGO_URI'', ''mongodb://atlas''), (''DB2'', ''polymarket''),
                    (''NEO4J_URI'', ''bolt://neo4j:7687''), (''NEO4J_USER'', ''neo4j''),
                    (''NEO4J_PASSWORD'', ''secret'')]) ''MONGO_URI''"
  by (simp_all add: check_environment_variables_iff env_set_def)

subsection \<open>The counters\<close>




subsection \<open>Setting properties\<close>







lemma rels_set_nodes [simp]: "rels (set_nodes ks kvs g) = rels g"
  by (simp add: set_nodes_def)










lemma rels_market_query [simp]: "rels (market_query mid kvs g) = rels g"
proof -
  obtain g' ms where mn: "merge_node Market ''id'' mid g = (g', ms)"
    by (cases "merge_node Market ''id'' mid g")
  show ?thesis
    using merge_node_facts(1) [OF mn] by (simp add: market_query_def mn)
qed





subsection \<open>The import as a whole\<close>







lemma connect_neo4j_target [simp]:
  "connect_neo4j (w\<lparr>target := g\<rparr>) mx d = connect_neo4j w mx d"
  by (simp add: connect_neo4j_def)


subsection \<open>The Market nodes of an import\<close>








subsection \<open>Repeating a query\<close>










subsection \<open>Importing twice\<close>





subsection \<open>Documents without a key\<close>







subsection \<open>Numbers that do not parse\<close>

text \<open>
  C3. A volume or a comment count that is a plain non-numeric string is not turned into
  the default: \<^verbatim>\<open>float\<close> (line 290) and \<^verbatim>\<open>int\<close> (line 291) raise \<^verbatim>\<open>ValueError\<close>, the
  exception leaves \<^verbatim>\<open>create_market_node\<close> before the query runs, and the caller skips the
  document. The boxed volume of lines 246-249 does catch the same exception.
\<close>

theorem plain_string_number_raises:
  "create_market_node str_of g [(''id'', PStr ''m1''), (''volume'', PStr ''abc'')] = Inl ValueError \<and>
   create_market_node str_of g [(''id'', PStr ''m1''), (''commentCount'', PStr ''abc'')] =
     Inl ValueError \<and>
   process_document str_of [(''id'', PStr ''m1''), (''volume'', PStr ''abc'')] (g, st) = (g, st) \<and>
   volume_param [(''id'', PStr ''m1''), (''volume'', PDict [(''$numberDouble'', PStr ''abc'')])] =
     Inr (Finite 0)"
proof (intro conjI)
  show v: "create_market_node str_of g [(''id'', PStr ''m1''), (''volume'', PStr ''abc'')] =
      Inl ValueError"
    by (simp add: create_market_node_def market_params_def bind_err_def volume_def dict_get_def
        start_date_def end_date_def created_at_def closed_time_def py_or_def parse_date_None
        float_of_str_abc Let_def)
  show "create_market_node str_of g [(''id'', PStr ''m1''), (''commentCount'', PStr ''abc'')] =
      Inl ValueError"
    by (simp add: create_market_node_def market_params_def bind_err_def volume_def dict_get_def
        start_date_def end_date_def created_at_def closed_time_def py_or_def parse_date_None
        comment_count_param_def int_of_str_abc Let_def)
  show "process_document str_of [(''id'', PStr ''m1''), (''volume'', PStr ''abc'')] (g, st) = (g, st)"
    by (simp add: process_document_def v)
  show "volume_param [(''id'', PStr ''m1''), (''volume'', PDict [(''$numberDouble'', PStr ''abc'')])] =
     Inr (Finite 0)"
    using volume_boxed [of "[(''id'', PStr ''m1''), (''volume'', PDict [(''$numberDouble'', PStr ''abc'')])]"
        "[(''$numberDouble'', PStr ''abc'')]" "''abc''"]
    by (simp add: float_of_str_abc)
qed

subsection \<open>Key resolution\<close>

text \<open>
  C4. Key resolution is a function of the document alone. A document whose \<^verbatim>\<open>id\<close> is
  non-empty (truthy) gets that value as its key. Otherwise the \<^verbatim>\<open>_id\<close> field decides:
  a dictionary holding \<^verbatim>\<open>$oid\<close> gives the payload stored under \<^verbatim>\<open>$oid\<close>, a string is
  used as it is, and any other non-empty value is converted with \<^verbatim>\<open>str\<close>.
\<close>

theorem market_id_resolution:
  "(\<forall>v. map_of market_data ''id'' = Some v \<and> truthy v \<longrightarrow>
        market_id str_of market_data = v) \<and>
   (\<not> truthy (dict_get market_data ''id'' (PStr [])) \<longrightarrow>
      (\<forall>obj oid. map_of market_data ''_id'' = Some (PDict obj) \<and> map_of obj ''$oid'' = Some oid \<longrightarrow>
          market_id str_of market_data = oid) \<and>
      (\<forall>s. map_of market_data ''_id'' = Some (PStr s) \<longrightarrow>
          market_id str_of market_data = PStr s) \<and>
      (\<forall>u. map_of market_data ''_id'' = Some u \<and> truthy u \<and>
           (\<forall>s. u \<noteq> PStr s) \<and> (\<forall>obj. u = PDict obj \<longrightarrow> map_of obj ''$oid'' = None) \<longrightarrow>
          market_id str_of market_data = PStr (str_of u)))"
  by (auto simp: market_id_def dict_get_def Let_def split: pyval.splits option.splits)

theorem market_id_resolution_witness:
  "market_id (\<lambda>v. ''?'') [(''id'', PStr ''516706''), (''_id'', PStr ''x'')] = PStr ''516706'' \<and>
   market_id (\<lambda>v. ''?'') [(''_id'', PDict [(''$oid'', PStr ''65a1f0c2'')])] = PStr ''65a1f0c2'' \<and>
   market_id (\<lambda>v. ''?'') [(''id'', PStr []), (''_id'', PStr ''abc'')] = PStr ''abc'' \<and>
   market_id (\<lambda>v. case v of PObjectId h \<Rightarrow> h | _ \<Rightarrow> ''?'') [(''_id'', PObjectId ''65a1f0c2'')]
     = PStr ''65a1f0c2''"
  using market_id_resolution [of "[(''id'', PStr ''516706''), (''_id'', PStr ''x'')]" "\<lambda>v. ''?''"]
    market_id_resolution [of "[(''_id'', PDict [(''$oid'', PStr ''65a1f0c2'')])]" "\<lambda>v. ''?''"]
    market_id_resolution [of "[(''id'', PStr []), (''_id'', PStr ''abc'')]" "\<lambda>v. ''?''"]
    market_id_resolution [of "[(''_id'', PObjectId ''65a1f0c2'')]"
       "\<lambda>v. case v of PObjectId h \<Rightarrow> h | _ \<Rightarrow> ''?''"]
  by (simp add: dict_get_def)

subsection \<open>Unboxing the volume\<close>

text \<open>
  C5. For a volume boxed as \<^verbatim>\<open>{"$numberDouble": s}\<close> with a string \<open>s\<close>, the value passed
  to the query as \<^verbatim>\<open>$volume\<close> is plus infinity for \<^verbatim>\<open>Infinity\<close>, minus infinity for
  \<^verbatim>\<open>-Infinity\<close>, not-a-number for \<^verbatim>\<open>NaN\<close>; any other \<open>s\<close> is parsed by \<^verbatim>\<open>float\<close>,
  and when that fails the volume is 0. The literal \<^verbatim>\<open>42.5\<close> gives 42.5; a string that
  \<^verbatim>\<open>float\<close> refuses, such as \<^verbatim>\<open>abc\<close> or \<^verbatim>\<open>1.5\<close> after the separator of code 28,
  gives 0.
\<close>

theorem volume_unboxing:
  "(map_of market_data ''volume'' = Some (PDict box) \<and>
    map_of box ''$numberDouble'' = Some (PStr s) \<longrightarrow>
      volume_param market_data =
        Inr (if s = ''Infinity'' then PosInf
             else if s = ''-Infinity'' then NegInf
             else if s = ''NaN'' then NaN
             else case float_of_str s of Some f \<Rightarrow> f | None \<Rightarrow> Finite 0) \<and>
      (\<forall>kvs. market_params market_data = Inr kvs \<longrightarrow>
         map_of kvs ''volume'' =
           Some (PFloat (if s = ''Infinity'' then PosInf
                         else if s = ''-Infinity'' then NegInf
                         else if s = ''NaN'' then NaN
                         else case float_of_str s of Some f \<Rightarrow> f | None \<Rightarrow> Finite 0)))) \<and>
   float_of_str ''42.5'' = Some (Finite (85 / 2)) \<and>
   volume_param [(''volume'', PDict [(''$numberDouble'', PStr ''42.5'')])] = Inr (Finite (85 / 2))"
proof (intro conjI impI allI)
  assume a: "map_of market_data ''volume'' = Some (PDict box) \<and>
    map_of box ''$numberDouble'' = Some (PStr s)"
  then show v: "volume_param market_data =
        Inr (if s = ''Infinity'' then PosInf
             else if s = ''-Infinity'' then NegInf
             else if s = ''NaN'' then NaN
             else case float_of_str s of Some f \<Rightarrow> f | None \<Rightarrow> Finite 0)"
    by (simp add: volume_boxed)
  fix kvs
  assume "market_params market_data = Inr kvs"
  from market_params_volume [OF this] show "map_of kvs ''volume'' =
           Some (PFloat (if s = ''Infinity'' then PosInf
                         else if s = ''-Infinity'' then NegInf
                         else if s = ''NaN'' then NaN
                         else case float_of_str s of Some f \<Rightarrow> f | None \<Rightarrow> Finite 0))"
    using v by auto
next
  show "float_of_str ''42.5'' = Some (Finite (85 / 2))"
    by (rule float_of_str_42_5)
next
  have "volume_param [(''volume'', PDict [(''$numberDouble'', PStr ''42.5'')])] =
      Inr (case float_of_str ''42.5'' of Some f \<Rightarrow> f | None \<Rightarrow> Finite 0)"
    using volume_boxed [of "[(''volume'', PDict [(''$numberDouble'', PStr ''42.5'')])]"
        "[(''$numberDouble'', PStr ''42.5'')]" "''42.5''"]
    by simp
  then show "volume_param [(''volume'', PDict [(''$numberDouble'', PStr ''42.5'')])] =
      Inr (Finite (85 / 2))"
    by (simp add: float_of_str_42_5)
qed

theorem volume_unboxing_witness:
  "volume_param [(''volume'', PDict [(''$numberDouble'', PStr ''Infinity'')])] = Inr PosInf \<and>
   volume_param [(''volume'', PDict [(''$numberDouble'', PStr ''-Infinity'')])] = Inr NegInf \<and>
   volume_param [(''volume'', PDict [(''$numberDouble'', PStr ''NaN'')])] = Inr NaN \<and>
   volume_param [(''volume'', PDict [(''$numberDouble'', PStr ''abc'')])] = Inr (Finite 0) \<and>
   volume_param
     [(''volume'', PDict [(''$numberDouble'', PStr [CHR 0x1C, CHR ''1'', CHR ''.'', CHR ''5''])])] =
     Inr (Finite 0)"
  using volume_unboxing [of "[(''volume'', PDict [(''$numberDouble'', PStr ''Infinity'')])]"
      "[(''$numberDouble'', PStr ''Infinity'')]" "''Infinity''"]
    volume_unboxing [of "[(''volume'', PDict [(''$numberDouble'', PStr ''-Infinity'')])]"
      "[(''$numberDouble'', PStr ''-Infinity'')]" "''-Infinity''"]
    volume_unboxing [of "[(''volume'', PDict [(''$numberDouble'', PStr ''NaN'')])]"
      "[(''$numberDouble'', PStr ''NaN'')]" "''NaN''"]
    volume_unboxing [of "[(''volume'', PDict [(''$numberDouble'', PStr ''abc'')])]"
      "[(''$numberDouble'', PStr ''abc'')]" "''abc''"]
    volume_unboxing
      [of "[(''volume'', PDict [(''$numberDouble'', PStr [CHR 0x1C, CHR ''1'', CHR ''.'', CHR ''5''])])]"
        "[(''$numberDouble'', PStr [CHR 0x1C, CHR ''1'', CHR ''.'', CHR ''5''])]"
        "[CHR 0x1C, CHR ''1'', CHR ''.'', CHR ''5'']"]
  by (simp add: float_of_str_abc float_of_str_separator)

subsection \<open>The formats of \<^verbatim>\<open>parse_date\<close>\<close>

text \<open>
  C6. \<^verbatim>\<open>parse_date\<close> tries the four formats \<^verbatim>\<open>%Y-%m-%dT%H:%M:%S.%fZ\<close>,
  \<^verbatim>\<open>%Y-%m-%dT%H:%M:%SZ\<close>, \<^verbatim>\<open>%Y-%m-%d %H:%M:%S\<close>, \<^verbatim>\<open>%Y-%m-%d\<close> in this order, and the
  first one that parses the string gives the result; a string that none parses, and every
  empty or absent argument, gives \<open>None\<close>; no string raises an error. The string
  \<^verbatim>\<open>not-a-date\<close> gives \<open>None\<close>, and \<^verbatim>\<open>2026-01-01T00:00:00.000000Z\<close> gives the date whose
  ISO text starts with the date part of the input.
\<close>

theorem parse_date_first_format_wins:
  "formats = [''%Y-%m-%dT%H:%M:%S.%fZ'', ''%Y-%m-%dT%H:%M:%SZ'', ''%Y-%m-%d %H:%M:%S'', ''%Y-%m-%d''] \<and>
   (i < length formats \<and> strptime s (formats ! i) = Some dt \<and>
      (\<forall>j<i. strptime s (formats ! j) = None) \<longrightarrow> parse_date (PStr s) = Inr (Some dt)) \<and>
   ((\<forall>fmt \<in> set formats. strptime s fmt = None) \<longrightarrow> parse_date (PStr s) = Inr None) \<and>
   (\<not> truthy v \<longrightarrow> parse_date v = Inr None) \<and>
   (\<exists>r. parse_date (PStr s) = Inr r) \<and>
   parse_date (PStr ''not-a-date'') = Inr None \<and>
   parse_date (PStr ''2026-01-01T00:00:00.000000Z'') =
     Inr (Some \<lparr>year = 2026, month = 1, day = 1, hour = 0, minute = 0, second = 0,
                microsecond = 0\<rparr>) \<and>
   isoformat \<lparr>year = 2026, month = 1, day = 1, hour = 0, minute = 0, second = 0, microsecond = 0\<rparr> =
     ''2026-01-01T00:00:00'' \<and>
   take 10 ''2026-01-01T00:00:00'' = take 10 ''2026-01-01T00:00:00.000000Z''"
proof (intro conjI impI)
  show "formats =
      [''%Y-%m-%dT%H:%M:%S.%fZ'', ''%Y-%m-%dT%H:%M:%SZ'', ''%Y-%m-%d %H:%M:%S'', ''%Y-%m-%d'']"
    by (simp add: formats_def)
next
  assume a: "i < length formats \<and> strptime s (formats ! i) = Some dt \<and>
      (\<forall>j<i. strptime s (formats ! j) = None)"
  then have t: "try_formats s formats = Some dt"
    using try_formats_first [of i formats s dt] by blast
  have "s \<noteq> []"
  proof
    assume "s = []"
    then have "strptime s (formats ! i) = None"
      using a strptime_empty [of "formats ! i"] by simp
    then show False
      using a by simp
  qed
  then show "parse_date (PStr s) = Inr (Some dt)"
    by (simp add: parse_date_str t)
next
  assume "\<forall>fmt \<in> set formats. strptime s fmt = None"
  then show "parse_date (PStr s) = Inr None"
    by (simp add: parse_date_str try_formats_none)
next
  assume "\<not> truthy v"
  then show "parse_date v = Inr None"
    by (simp add: parse_date_def)
next
  show "\<exists>r. parse_date (PStr s) = Inr r"
    by (simp add: parse_date_str)
next
  show "parse_date (PStr ''not-a-date'') = Inr None"
    by (rule parse_date_not_a_date)
next
  show "parse_date (PStr ''2026-01-01T00:00:00.000000Z'') =
     Inr (Some \<lparr>year = 2026, month = 1, day = 1, hour = 0, minute = 0, second = 0,
                microsecond = 0\<rparr>)"
    by (rule parse_date_iso_micro)
next
  show "isoformat \<lparr>year = 2026, month = 1, day = 1, hour = 0, minute = 0, second = 0,
      microsecond = 0\<rparr> = ''2026-01-01T00:00:00''"
    by (rule isoformat_midnight)
next
  show "take 10 ''2026-01-01T00:00:00'' = take 10 ''2026-01-01T00:00:00.000000Z''"
    by simp
qed

theorem parse_date_first_format_wins_witness:
  "parse_date (PStr ''2026-01-01'') =
     Inr (Some \<lparr>year = 2026, month = 1, day = 1, hour = 0, minute = 0, second = 0,
                microsecond = 0\<rparr>) \<and>
   parse_date (PStr ''garbage'') = Inr None \<and>
   parse_date (PStr []) = Inr None \<and>
   parse_date PNone = Inr None"
proof -
  let ?dt = "\<lparr>year = 2026, month = 1, day = 1, hour = 0, minute = 0, second = 0, microsecond = 0\<rparr>"
  have l: "(3::nat) < length formats"
    by (simp add: formats_def)
  have h: "strptime ''2026-01-01'' (formats ! 3) = Some ?dt"
    by (simp add: formats_def strptime_day)
  have n: "\<forall>j<3. strptime ''2026-01-01'' (formats ! j) = None"
  proof (intro allI impI)
    fix j :: nat
    assume "j < 3"
    then have "j = 0 \<or> j = 1 \<or> j = 2"
      by arith
    then show "strptime ''2026-01-01'' (formats ! j) = None"
      by (auto simp: formats_def strptime_day_others)
  qed
  have g: "\<forall>fmt \<in> set formats. strptime ''garbage'' fmt = None"
    by (simp add: formats_def strptime_def regex_eval)
  have "parse_date (PStr ''2026-01-01'') = Inr (Some ?dt)"
    using parse_date_first_format_wins [of 3 "''2026-01-01''" ?dt PNone] l h n by blast
  moreover have "parse_date (PStr ''garbage'') = Inr None"
    using parse_date_first_format_wins [of 0 "''garbage''" ?dt PNone] g by blast
  moreover have "parse_date (PStr []) = Inr None" "parse_date PNone = Inr None"
    using parse_date_first_format_wins [of 0 "[]" ?dt "PStr []"]
      parse_date_first_format_wins [of 0 "[]" ?dt PNone] by simp_all
  ultimately show ?thesis
    by simp
qed

subsection \<open>Linking categories and series\<close>

lemma sports_skeleton:
  "fold (sk_document str_of)
       [[(''id'', PStr ''m1''), (''category'', PStr ''Sports'')],
        [(''id'', PStr ''m2''), (''category'', PStr ''Sports'')]] ([], []) =
   ([(Market, Some (PStr ''m1'')), (Category, Some (PStr ''Sports'')), (Market, Some (PStr ''m2''))],
    [(0, BELONGS_TO, 1), (2, BELONGS_TO, 1)])"
  by (simp add: normalizes_plain sk_eval)

text \<open>
  C7, as stated, fails when the market key matches no Market node: the name is not empty,
  yet the call neither matches nor creates a target node, and no edge is made. The
  \<^verbatim>\<open>MATCH\<close> on the market comes first in both queries.
\<close>

theorem link_needs_market:
  "truthy (PStr ''Sports'') \<and>
   create_category_relationship empty_graph (PStr ''m1'') (PStr ''Sports'') = empty_graph \<and>
   count_label (create_category_relationship empty_graph (PStr ''m1'') (PStr ''Sports''))
     Category = 0 \<and>
   truthy (PStr ''nba-2026'') \<and>
   create_series_relationship empty_graph (PStr ''m1'') (PStr ''nba-2026'') = empty_graph \<and>
   count_label (create_series_relationship empty_graph (PStr ''m1'') (PStr ''nba-2026''))
     Series = 0"
  by (simp add: create_category_relationship_def create_series_relationship_def
      link_query_no_market match_nodes_Nil_iff empty_graph_def count_label_def)

text \<open>
  C7, amended. \<^verbatim>\<open>create_category_relationship\<close> and \<^verbatim>\<open>create_series_relationship\<close> leave
  the graph as it is when the name or slug is empty. With a non-empty name and a Market
  node for the key (the node \<^verbatim>\<open>create_market_node\<close> has just merged), the target node is
  matched or created by its key: one node is added when none has the key, none otherwise;
  every matching market then has an edge to every matching target; edges that were distinct
  stay distinct; and a second call with the same arguments changes nothing. With a
  non-empty name and no Market node for the key, the graph is left as it is. Two documents
  with category \<^verbatim>\<open>Sports\<close>, imported into an empty graph, give one Category node and two
  \<^verbatim>\<open>BELONGS_TO\<close> edges.
\<close>

theorem link_match_or_create:
  "(\<not> truthy v \<longrightarrow>
      create_category_relationship g mid v = g \<and> create_series_relationship g mid v = g) \<and>
   (truthy v \<and> (\<exists>n \<in> set (nodes g). matches Market ''id'' mid n) \<longrightarrow>
      (let g' = create_category_relationship g mid v in
         nodes g' =
           nodes g @ (if \<exists>n \<in> set (nodes g). matches Category ''name'' v n then []
                      else [\<lparr>label = Category, props = [''name'' \<mapsto> v]\<rparr>]) \<and>
         (\<exists>n \<in> set (nodes g'). matches Category ''name'' v n) \<and>
         (\<forall>a \<in> set (match_nodes g' Market ''id'' mid).
            \<forall>c \<in> set (match_nodes g' Category ''name'' v). (a, BELONGS_TO, c) \<in> set (rels g')) \<and>
         (distinct (rels g) \<longrightarrow> distinct (rels g')) \<and>
         create_category_relationship g' mid v = g') \<and>
      (let g' = create_series_relationship g mid v in
         nodes g' =
           nodes g @ (if \<exists>n \<in> set (nodes g). matches Series ''slug'' v n then []
                      else [\<lparr>label = Series, props = [''slug'' \<mapsto> v]\<rparr>]) \<and>
         (\<exists>n \<in> set (nodes g'). matches Series ''slug'' v n) \<and>
         (\<forall>a \<in> set (match_nodes g' Market ''id'' mid).
            \<forall>c \<in> set (match_nodes g' Series ''slug'' v). (a, IN_SERIES, c) \<in> set (rels g')) \<and>
         (distinct (rels g) \<longrightarrow> distinct (rels g')) \<and>
         create_series_relationship g' mid v = g')) \<and>
   (truthy v \<and> \<not> (\<exists>n \<in> set (nodes g). matches Market ''id'' mid n) \<longrightarrow>
      create_category_relationship g mid v = g \<and> create_series_relationship g mid v = g) \<and>
   (case process_batch str_of
           [[(''id'', PStr ''m1''), (''category'', PStr ''Sports'')],
            [(''id'', PStr ''m2''), (''category'', PStr ''Sports'')]] (empty_graph, no_stats) of
      (g2, st) \<Rightarrow>
        count_label g2 Category = 1 \<and> count_label g2 Market = 2 \<and>
        rels g2 = [(0, BELONGS_TO, 1), (2, BELONGS_TO, 1)])"
proof (intro conjI impI)
  assume "\<not> truthy v"
  then show "create_category_relationship g mid v = g" "create_series_relationship g mid v = g"
    by (simp_all add: create_category_relationship_def create_series_relationship_def)
next
  assume a: "truthy v \<and> (\<exists>n \<in> set (nodes g). matches Market ''id'' mid n)"
  then have m: "match_nodes g Market ''id'' mid \<noteq> []"
    by (simp add: match_nodes_Nil_iff)
  have tv: "truthy v"
    using a by simp
  have c: "create_category_relationship g mid v = link_query Category ''name'' BELONGS_TO mid v g"
    using tv by (simp add: create_category_relationship_def)
  have s: "create_series_relationship g mid v = link_query Series ''slug'' IN_SERIES mid v g"
    using tv by (simp add: create_series_relationship_def)
  note ec = link_query_effect [OF m, of Category "''name''" BELONGS_TO v]
  note es = link_query_effect [OF m, of Series "''slug''" IN_SERIES v]
  show "let g' = create_category_relationship g mid v in
         nodes g' =
           nodes g @ (if \<exists>n \<in> set (nodes g). matches Category ''name'' v n then []
                      else [\<lparr>label = Category, props = [''name'' \<mapsto> v]\<rparr>]) \<and>
         (\<exists>n \<in> set (nodes g'). matches Category ''name'' v n) \<and>
         (\<forall>a \<in> set (match_nodes g' Market ''id'' mid).
            \<forall>c \<in> set (match_nodes g' Category ''name'' v). (a, BELONGS_TO, c) \<in> set (rels g')) \<and>
         (distinct (rels g) \<longrightarrow> distinct (rels g')) \<and>
         create_category_relationship g' mid v = g'"
    unfolding Let_def c
    using ec tv link_query_idem [of Category "''name''" BELONGS_TO mid v g]
    by (simp add: match_nodes_Nil_iff create_category_relationship_def)
  show "let g' = create_series_relationship g mid v in
         nodes g' =
           nodes g @ (if \<exists>n \<in> set (nodes g). matches Series ''slug'' v n then []
                      else [\<lparr>label = Series, props = [''slug'' \<mapsto> v]\<rparr>]) \<and>
         (\<exists>n \<in> set (nodes g'). matches Series ''slug'' v n) \<and>
         (\<forall>a \<in> set (match_nodes g' Market ''id'' mid).
            \<forall>c \<in> set (match_nodes g' Series ''slug'' v). (a, IN_SERIES, c) \<in> set (rels g')) \<and>
         (distinct (rels g) \<longrightarrow> distinct (rels g')) \<and>
         create_series_relationship g' mid v = g'"
    unfolding Let_def s
    using es tv link_query_idem [of Series "''slug''" IN_SERIES mid v g]
    by (simp add: match_nodes_Nil_iff create_series_relationship_def)
next
  assume "truthy v \<and> \<not> (\<exists>n \<in> set (nodes g). matches Market ''id'' mid n)"
  then show "create_category_relationship g mid v = g" "create_series_relationship g mid v = g"
    by (simp_all add: create_category_relationship_def create_series_relationship_def
        link_query_no_market match_nodes_Nil_iff)
next
  let ?docs = "[[(''id'', PStr ''m1''), (''category'', PStr ''Sports'')],
                [(''id'', PStr ''m2''), (''category'', PStr ''Sports'')]]"
  obtain g2 st where r: "process_batch str_of ?docs (empty_graph, no_stats) = (g2, st)"
    by (cases "process_batch str_of ?docs (empty_graph, no_stats)")
  have "shape g2 = fold (sk_document str_of) ?docs (shape empty_graph)"
    using shape_process_batch [of str_of ?docs "(empty_graph, no_stats)"] by (simp add: r)
  then have sh: "shape g2 =
     ([(Market, Some (PStr ''m1'')), (Category, Some (PStr ''Sports'')), (Market, Some (PStr ''m2''))],
      [(0, BELONGS_TO, 1), (2, BELONGS_TO, 1)])"
    by (simp only: shape_empty_graph sports_skeleton)
  have "count_label g2 Category = 1" "count_label g2 Market = 2"
    by (simp_all add: count_label_shape sh)
  moreover have "rels g2 = [(0, BELONGS_TO, 1), (2, BELONGS_TO, 1)]"
    using sh by (simp add: shape_def)
  ultimately show "case process_batch str_of ?docs (empty_graph, no_stats) of
      (g2, st) \<Rightarrow>
        count_label g2 Category = 1 \<and> count_label g2 Market = 2 \<and>
        rels g2 = [(0, BELONGS_TO, 1), (2, BELONGS_TO, 1)]"
    by (simp add: r)
qed

theorem link_match_or_create_witness:
  "\<not> truthy (PStr []) \<and>
   create_category_relationship
     \<lparr>nodes = [\<lparr>label = Market, props = [''id'' \<mapsto> PStr ''m1'']\<rparr>], rels = []\<rparr>
     (PStr ''m1'') (PStr []) =
     \<lparr>nodes = [\<lparr>label = Market, props = [''id'' \<mapsto> PStr ''m1'']\<rparr>], rels = []\<rparr> \<and>
   truthy (PStr ''Sports'') \<and>
   (\<exists>n \<in> set (nodes \<lparr>nodes = [\<lparr>label = Market, props = [''id'' \<mapsto> PStr ''m1'']\<rparr>], rels = []\<rparr>).
      matches Market ''id'' (PStr ''m1'') n) \<and>
   nodes (create_category_relationship
     \<lparr>nodes = [\<lparr>label = Market, props = [''id'' \<mapsto> PStr ''m1'']\<rparr>], rels = []\<rparr>
     (PStr ''m1'') (PStr ''Sports'')) =
     [\<lparr>label = Market, props = [''id'' \<mapsto> PStr ''m1'']\<rparr>,
      \<lparr>label = Category, props = [''name'' \<mapsto> PStr ''Sports'']\<rparr>] \<and>
   nodes (create_series_relationship
     \<lparr>nodes = [\<lparr>label = Market, props = [''id'' \<mapsto> PStr ''m1'']\<rparr>], rels = []\<rparr>
     (PStr ''m1'') (PStr ''Sports'')) =
     [\<lparr>label = Market, props = [''id'' \<mapsto> PStr ''m1'']\<rparr>,
      \<lparr>label = Series, props = [''slug'' \<mapsto> PStr ''Sports'']\<rparr>] \<and>
   \<not> (\<exists>n \<in> set (nodes \<lparr>nodes = [\<lparr>label = Market, props = [''id'' \<mapsto> PStr ''m1'']\<rparr>], rels = []\<rparr>).
      matches Market ''id'' (PStr ''m2'') n) \<and>
   create_category_relationship
     \<lparr>nodes = [\<lparr>label = Market, props = [''id'' \<mapsto> PStr ''m1'']\<rparr>], rels = []\<rparr>
     (PStr ''m2'') (PStr ''Sports'') =
     \<lparr>nodes = [\<lparr>label = Market, props = [''id'' \<mapsto> PStr ''m1'']\<rparr>], rels = []\<rparr>"
  using link_match_or_create
      [of "PStr ''Sports''"
          "\<lparr>nodes = [\<lparr>label = Market, props = [''id'' \<mapsto> PStr ''m1'']\<rparr>], rels = []\<rparr>"
          "PStr ''m2''" "\<lambda>v. []"]
    link_match_or_create
      [of "PStr []" "\<lparr>nodes = [\<lparr>label = Market, props = [''id'' \<mapsto> PStr ''m1'']\<rparr>], rels = []\<rparr>"
          "PStr ''m1''" "\<lambda>v. []"]
    link_match_or_create
      [of "PStr ''Sports''"
          "\<lparr>nodes = [\<lparr>label = Market, props = [''id'' \<mapsto> PStr ''m1'']\<rparr>], rels = []\<rparr>"
          "PStr ''m1''" "\<lambda>v. []"]
  by (simp add: Let_def matches_def)

subsection \<open>Connections and the exit status\<close>

text \<open>
  C8, as stated, fails on two points. \<^verbatim>\<open>connect_mongodb\<close> makes one attempt and does not
  retry: a source store that would answer at the second attempt ends the run with status 1
  after one attempt and no sleep. And a run on an empty collection exits with status 0
  without printing the statistics.
\<close>

theorem mongodb_single_attempt:
  "mongo_ready
     \<lparr>env = map_of [(''MONGO_URI'', ''mongodb://atlas''), (''DB2'', ''polymarket''),
                    (''NEO4J_URI'', ''bolt://neo4j:7687''), (''NEO4J_USER'', ''neo4j''),
                    (''NEO4J_PASSWORD'', ''secret'')],
      mongo_ready = (\<lambda>n. 2 \<le> n), neo4j_ready = (\<lambda>n. True), collection = [],
      target = empty_graph, answer = None\<rparr> 2 \<and>
   exit_code (main (\<lambda>v. [])
     \<lparr>env = map_of [(''MONGO_URI'', ''mongodb://atlas''), (''DB2'', ''polymarket''),
                    (''NEO4J_URI'', ''bolt://neo4j:7687''), (''NEO4J_USER'', ''neo4j''),
                    (''NEO4J_PASSWORD'', ''secret'')],
      mongo_ready = (\<lambda>n. 2 \<le> n), neo4j_ready = (\<lambda>n. True), collection = [],
      target = empty_graph, answer = None\<rparr>) = 1 \<and>
   mongo (main (\<lambda>v. [])
     \<lparr>env = map_of [(''MONGO_URI'', ''mongodb://atlas''), (''DB2'', ''polymarket''),
                    (''NEO4J_URI'', ''bolt://neo4j:7687''), (''NEO4J_USER'', ''neo4j''),
                    (''NEO4J_PASSWORD'', ''secret'')],
      mongo_ready = (\<lambda>n. 2 \<le> n), neo4j_ready = (\<lambda>n. True), collection = [],
      target = empty_graph, answer = None\<rparr>) =
     Some \<lparr>connected = False, attempts = 1, slept = 0\<rparr> \<and>
   exit_code (main (\<lambda>v. [])
     \<lparr>env = map_of [(''MONGO_URI'', ''mongodb://atlas''), (''DB2'', ''polymarket''),
                    (''NEO4J_URI'', ''bolt://neo4j:7687''), (''NEO4J_USER'', ''neo4j''),
                    (''NEO4J_PASSWORD'', ''secret'')],
      mongo_ready = (\<lambda>n. True), neo4j_ready = (\<lambda>n. True), collection = [],
      target = empty_graph, answer = None\<rparr>) = 0 \<and>
   printed (main (\<lambda>v. [])
     \<lparr>env = map_of [(''MONGO_URI'', ''mongodb://atlas''), (''DB2'', ''polymarket''),
                    (''NEO4J_URI'', ''bolt://neo4j:7687''), (''NEO4J_USER'', ''neo4j''),
                    (''NEO4J_PASSWORD'', ''secret'')],
      mongo_ready = (\<lambda>n. True), neo4j_ready = (\<lambda>n. True), collection = [],
      target = empty_graph, answer = None\<rparr>) = None"
  using within_30(1)
  by (simp add: main_cases env_ok connect_mongodb_def connect_neo4j_facts(3) printed_import
      del: map_of.simps)

text \<open>
  C8, amended. The connection to the graph store is retried with a fixed delay: at most
  \<open>max_retries\<close> attempts (30 in \<^verbatim>\<open>main\<close>), a sleep of \<open>retry_delay\<close> seconds (2 in
  \<^verbatim>\<open>main\<close>) after each failed attempt but the last, success at the first attempt that finds
  the store ready. The connection to the source store is attempted once, without sleep. The
  process exits with status 1, leaving the graph as it was and printing no statistics, when
  a required variable is missing, when the one attempt on the source store fails, or when
  the graph store answers at none of the 30 attempts; otherwise it exits with status 0,
  whatever the documents are, and prints the final statistics unless the collection is
  empty.
\<close>

theorem connection_policy:
  "attempts (connect_neo4j w max_retries retry_delay) \<le> max_retries \<and>
   slept (connect_neo4j w max_retries retry_delay) =
     retry_delay * (attempts (connect_neo4j w max_retries retry_delay) - 1) \<and>
   (connected (connect_neo4j w max_retries retry_delay) \<longleftrightarrow>
      (\<exists>n. 1 \<le> n \<and> n \<le> max_retries \<and> neo4j_ready w n)) \<and>
   (connected (connect_neo4j w max_retries retry_delay) \<longrightarrow>
      neo4j_ready w (attempts (connect_neo4j w max_retries retry_delay)) \<and>
      (\<forall>n. 1 \<le> n \<and> n < attempts (connect_neo4j w max_retries retry_delay) \<longrightarrow>
           \<not> neo4j_ready w n)) \<and>
   (\<not> connected (connect_neo4j w max_retries retry_delay) \<longrightarrow>
      attempts (connect_neo4j w max_retries retry_delay) = max_retries) \<and>
   attempts (connect_mongodb w) \<le> 1 \<and> slept (connect_mongodb w) = 0 \<and>
   (connected (connect_mongodb w) \<longleftrightarrow> env_set (env w) ''MONGO_URI'' \<and> mongo_ready w 1) \<and>
   exit_code (main str_of w) =
     (if check_environment_variables (env w) \<and> mongo_ready w 1 \<and>
         (\<exists>n. 1 \<le> n \<and> n \<le> 30 \<and> neo4j_ready w n) then 0 else 1) \<and>
   (exit_code (main str_of w) = 1 \<longrightarrow>
      graph_after (main str_of w) = target w \<and> printed (main str_of w) = None) \<and>
   (exit_code (main str_of w) = 0 \<longrightarrow>
      mongo (main str_of w) = Some (connect_mongodb w) \<and>
      neo4j (main str_of w) = Some (connect_neo4j w 30 2) \<and>
      (printed (main str_of w) = None \<longleftrightarrow> collection w = []))"
proof (intro conjI)
  show "attempts (connect_neo4j w max_retries retry_delay) \<le> max_retries"
    by (rule connect_neo4j_facts)
  show "slept (connect_neo4j w max_retries retry_delay) =
     retry_delay * (attempts (connect_neo4j w max_retries retry_delay) - 1)"
    by (rule connect_neo4j_facts)
  show "connected (connect_neo4j w max_retries retry_delay) \<longleftrightarrow>
      (\<exists>n. 1 \<le> n \<and> n \<le> max_retries \<and> neo4j_ready w n)"
    by (rule connect_neo4j_facts)
  show "connected (connect_neo4j w max_retries retry_delay) \<longrightarrow>
      neo4j_ready w (attempts (connect_neo4j w max_retries retry_delay)) \<and>
      (\<forall>n. 1 \<le> n \<and> n < attempts (connect_neo4j w max_retries retry_delay) \<longrightarrow>
           \<not> neo4j_ready w n)"
    using connect_neo4j_facts(4) by blast
  show "\<not> connected (connect_neo4j w max_retries retry_delay) \<longrightarrow>
      attempts (connect_neo4j w max_retries retry_delay) = max_retries"
    using connect_neo4j_facts(5) by blast
  show "attempts (connect_mongodb w) \<le> 1" "slept (connect_mongodb w) = 0"
    "connected (connect_mongodb w) \<longleftrightarrow> env_set (env w) ''MONGO_URI'' \<and> mongo_ready w 1"
    by (simp_all add: connect_mongodb_def)
  show "exit_code (main str_of w) =
     (if check_environment_variables (env w) \<and> mongo_ready w 1 \<and>
         (\<exists>n. 1 \<le> n \<and> n \<le> 30 \<and> neo4j_ready w n) then 0 else 1)"
    by (simp add: main_cases connect_neo4j_facts(3))
  show "exit_code (main str_of w) = 1 \<longrightarrow>
      graph_after (main str_of w) = target w \<and> printed (main str_of w) = None"
    by (simp add: main_cases)
  show "exit_code (main str_of w) = 0 \<longrightarrow>
      mongo (main str_of w) = Some (connect_mongodb w) \<and>
      neo4j (main str_of w) = Some (connect_neo4j w 30 2) \<and>
      (printed (main str_of w) = None \<longleftrightarrow> collection w = [])"
    by (simp add: main_cases printed_import connect_mongodb_def check_environment_variables_iff)
qed

theorem connection_policy_witness:
  "connected (connect_neo4j
     \<lparr>env = map_of [(''MONGO_URI'', ''mongodb://atlas''), (''DB2'', ''polymarket''),
                    (''NEO4J_URI'', ''bolt://neo4j:7687''), (''NEO4J_USER'', ''neo4j''),
                    (''NEO4J_PASSWORD'', ''secret'')],
      mongo_ready = (\<lambda>n. True), neo4j_ready = (\<lambda>n. 3 \<le> n),
      collection = [[(''id'', PStr ''m1''), (''volume'', PStr ''abc'')]],
      target = empty_graph, answer = None\<rparr> 30 2) \<and>
   exit_code (main (\<lambda>v. [])
     \<lparr>env = map_of [(''MONGO_URI'', ''mongodb://atlas''), (''DB2'', ''polymarket''),
                    (''NEO4J_URI'', ''bolt://neo4j:7687''), (''NEO4J_USER'', ''neo4j''),
                    (''NEO4J_PASSWORD'', ''secret'')],
      mongo_ready = (\<lambda>n. True), neo4j_ready = (\<lambda>n. 3 \<le> n),
      collection = [[(''id'', PStr ''m1''), (''volume'', PStr ''abc'')]],
      target = empty_graph, answer = None\<rparr>) = 0 \<and>
   printed (main (\<lambda>v. [])
     \<lparr>env = map_of [(''MONGO_URI'', ''mongodb://atlas''), (''DB2'', ''polymarket''),
                    (''NEO4J_URI'', ''bolt://neo4j:7687''), (''NEO4J_USER'', ''neo4j''),
                    (''NEO4J_PASSWORD'', ''secret'')],
      mongo_ready = (\<lambda>n. True), neo4j_ready = (\<lambda>n. 3 \<le> n),
      collection = [[(''id'', PStr ''m1''), (''volume'', PStr ''abc'')]],
      target = empty_graph, answer = None\<rparr>) \<noteq> None \<and>
   exit_code (main (\<lambda>v. [])
     \<lparr>env = map_of [(''MONGO_URI'', ''mongodb://atlas''), (''DB2'', ''polymarket''),
                    (''NEO4J_URI'', ''bolt://neo4j:7687''), (''NEO4J_USER'', ''neo4j''),
                    (''NEO4J_PASSWORD'', ''secret'')],
      mongo_ready = (\<lambda>n. True), neo4j_ready = (\<lambda>n. False),
      collection = [[(''id'', PStr ''m1''), (''volume'', PStr ''abc'')]],
      target = empty_graph, answer = None\<rparr>) = 1 \<and>
   printed (main (\<lambda>v. [])
     \<lparr>env = map_of [(''MONGO_URI'', ''mongodb://atlas''), (''DB2'', ''polymarket''),
                    (''NEO4J_URI'', ''bolt://neo4j:7687''), (''NEO4J_USER'', ''neo4j''),
                    (''NEO4J_PASSWORD'', ''secret'')],
      mongo_ready = (\<lambda>n. True), neo4j_ready = (\<lambda>n. False),
      collection = [[(''id'', PStr ''m1''), (''volume'', PStr ''abc'')]],
      target = empty_graph, answer = None\<rparr>) = None"
proof -
  let ?e = "map_of [(''MONGO_URI'', ''mongodb://atlas''), (''DB2'', ''polymarket''),
                    (''NEO4J_URI'', ''bolt://neo4j:7687''), (''NEO4J_USER'', ''neo4j''),
                    (''NEO4J_PASSWORD'', ''secret'')]"
  let ?w = "\<lparr>env = ?e, mongo_ready = (\<lambda>n. True), neo4j_ready = (\<lambda>n. 3 \<le> n),
      collection = [[(''id'', PStr ''m1''), (''volume'', PStr ''abc'')]],
      target = empty_graph, answer = None\<rparr>"
  let ?v = "\<lparr>env = ?e, mongo_ready = (\<lambda>n. True), neo4j_ready = (\<lambda>n. False),
      collection = [[(''id'', PStr ''m1''), (''volume'', PStr ''abc'')]],
      target = empty_graph, answer = None\<rparr>"
  note pw = connection_policy [of ?w 30 2 "\<lambda>v. []"]
  note pv = connection_policy [of ?v 30 2 "\<lambda>v. []"]
  have "connected (connect_neo4j ?w 30 2) \<longleftrightarrow>
      (\<exists>n. 1 \<le> n \<and> n \<le> 30 \<and> neo4j_ready ?w n)"
    using pw by (elim conjE)
  then have c: "connected (connect_neo4j ?w 30 2)"
    using within_30(2) by simp
  have "exit_code (main (\<lambda>v. []) ?w) =
     (if check_environment_variables (env ?w) \<and> mongo_ready ?w 1 \<and>
         (\<exists>n. 1 \<le> n \<and> n \<le> 30 \<and> neo4j_ready ?w n) then 0 else 1)"
    using pw by (elim conjE)
  then have w: "exit_code (main (\<lambda>v. []) ?w) = 0"
    using within_30(2) env_ok(1) by (simp del: map_of.simps)
  have "exit_code (main (\<lambda>v. []) ?w) = 0 \<longrightarrow>
      mongo (main (\<lambda>v. []) ?w) = Some (connect_mongodb ?w) \<and>
      neo4j (main (\<lambda>v. []) ?w) = Some (connect_neo4j ?w 30 2) \<and>
      (printed (main (\<lambda>v. []) ?w) = None \<longleftrightarrow> collection ?w = [])"
    using pw by (elim conjE)
  then have p: "printed (main (\<lambda>v. []) ?w) \<noteq> None"
    using w by simp
  have "exit_code (main (\<lambda>v. []) ?v) =
     (if check_environment_variables (env ?v) \<and> mongo_ready ?v 1 \<and>
         (\<exists>n. 1 \<le> n \<and> n \<le> 30 \<and> neo4j_ready ?v n) then 0 else 1)"
    using pv by (elim conjE)
  then have v: "exit_code (main (\<lambda>v. []) ?v) = 1"
    by (simp del: map_of.simps)
  have "exit_code (main (\<lambda>v. []) ?v) = 1 \<longrightarrow>
      graph_after (main (\<lambda>v. []) ?v) = target ?v \<and> printed (main (\<lambda>v. []) ?v) = None"
    using pv by (elim conjE)
  then have q: "printed (main (\<lambda>v. []) ?v) = None"
    using v by simp
  show ?thesis
    using c w p v q by (intro conjI)
qed

subsection \<open>Links without a market\<close>

text \<open>
  C9. A call of \<^verbatim>\<open>create_category_relationship\<close> or \<^verbatim>\<open>create_series_relationship\<close>
  whose market key matches no Market node leaves the graph as it is, whatever the name or
  slug: no node and no edge is created, and the call raises nothing (the functions return a
  graph on every input).
\<close>

theorem link_without_market_unchanged:
  "\<forall>n \<in> set (nodes g). \<not> matches Market ''id'' mid n \<Longrightarrow>
     create_category_relationship g mid category_name = g \<and>
     create_series_relationship g mid series_slug = g"
  by (simp add: create_category_relationship_def create_series_relationship_def
      link_query_no_market match_nodes_Nil_iff)

theorem link_without_market_unchanged_witness:
  "\<not> (\<exists>n \<in> set (nodes \<lparr>nodes = [\<lparr>label = Market, props = [''id'' \<mapsto> PStr ''a'']\<rparr>], rels = []\<rparr>).
      matches Market ''id'' (PStr ''b'') n) \<and>
   create_category_relationship
     \<lparr>nodes = [\<lparr>label = Market, props = [''id'' \<mapsto> PStr ''a'']\<rparr>], rels = []\<rparr>
     (PStr ''b'') (PStr ''Sports'') =
     \<lparr>nodes = [\<lparr>label = Market, props = [''id'' \<mapsto> PStr ''a'']\<rparr>], rels = []\<rparr> \<and>
   create_series_relationship
     \<lparr>nodes = [\<lparr>label = Market, props = [''id'' \<mapsto> PStr ''a'']\<rparr>], rels = []\<rparr>
     (PStr ''b'') (PStr ''nba-2026'') =
     \<lparr>nodes = [\<lparr>label = Market, props = [''id'' \<mapsto> PStr ''a'']\<rparr>], rels = []\<rparr>"
  using link_without_market_unchanged
    [of "\<lparr>nodes = [\<lparr>label = Market, props = [''id'' \<mapsto> PStr ''a'']\<rparr>], rels = []\<rparr>"
        "PStr ''b''" "PStr ''Sports''" "PStr ''nba-2026''"]
  by (simp add: matches_def)

subsection \<open>The creation date\<close>

text \<open>
  C10, as stated, fails: a document whose \<^verbatim>\<open>createdAt\<close> is a non-empty string that no
  format parses gets no \<^verbatim>\<open>createdAt\<close> attribute although its \<^verbatim>\<open>creationDate\<close> parses.
\<close>

theorem created_at_no_fallback_on_parse_failure:
  "created_at [(''createdAt'', PStr ''garbage''), (''creationDate'', PStr ''2026-01-01'')] = Inr None \<and>
   date_param None = PNone \<and>
   parse_date (PStr ''2026-01-01'') =
     Inr (Some \<lparr>year = 2026, month = 1, day = 1, hour = 0, minute = 0, second = 0,
                microsecond = 0\<rparr>)"
  by (simp add: created_at_def dict_get_def py_or_def parse_date_garbage parse_date_day
      date_param_def)

text \<open>
  C10, amended. \<^verbatim>\<open>create_market_node\<close> parses \<^verbatim>\<open>createdAt or creationDate\<close>: the
  \<^verbatim>\<open>creationDate\<close> field is parsed when \<^verbatim>\<open>createdAt\<close> is absent or falsy, and
  \<^verbatim>\<open>createdAt\<close> alone is parsed when it is truthy. The parameter \<^verbatim>\<open>$createdAt\<close> of the query
  is the ISO text of the parsed date, and \<^verbatim>\<open>None\<close> (the attribute is absent) exactly when
  the field chosen this way is falsy or parses under no format.
\<close>

theorem created_at_field_choice:
  "(\<not> truthy (dict_get market_data ''createdAt'' PNone) \<longrightarrow>
      created_at market_data = parse_date (dict_get market_data ''creationDate'' PNone)) \<and>
   (truthy (dict_get market_data ''createdAt'' PNone) \<longrightarrow>
      created_at market_data = parse_date (dict_get market_data ''createdAt'' PNone)) \<and>
   (\<forall>kvs. market_params market_data = Inr kvs \<longrightarrow>
      (\<exists>ca. created_at market_data = Inr ca \<and> map_of kvs ''createdAt'' = Some (date_param ca) \<and>
            (date_param ca = PNone \<longleftrightarrow> ca = None)))"
proof (intro conjI impI allI)
  assume "\<not> truthy (dict_get market_data ''createdAt'' PNone)"
  then show "created_at market_data = parse_date (dict_get market_data ''creationDate'' PNone)"
    by (simp add: created_at_def py_or_def)
next
  assume "truthy (dict_get market_data ''createdAt'' PNone)"
  then show "created_at market_data = parse_date (dict_get market_data ''createdAt'' PNone)"
    by (simp add: created_at_def py_or_def)
next
  fix kvs
  assume "market_params market_data = Inr kvs"
  from market_params_created_at [OF this]
  obtain ca where ca: "created_at market_data = Inr ca"
      "map_of kvs ''createdAt'' = Some (date_param ca)"
    by blast
  have "date_param ca = PNone \<longleftrightarrow> ca = None"
    by (cases ca) (simp_all add: date_param_def)
  then show "\<exists>ca. created_at market_data = Inr ca \<and>
      map_of kvs ''createdAt'' = Some (date_param ca) \<and> (date_param ca = PNone \<longleftrightarrow> ca = None)"
    using ca by blast
qed

theorem created_at_field_choice_witness:
  "created_at [(''creationDate'', PStr ''2026-01-01'')] =
     Inr (Some \<lparr>year = 2026, month = 1, day = 1, hour = 0, minute = 0, second = 0,
                microsecond = 0\<rparr>) \<and>
   created_at [(''createdAt'', PStr ''2026-01-01''), (''creationDate'', PStr ''garbage'')] =
     Inr (Some \<lparr>year = 2026, month = 1, day = 1, hour = 0, minute = 0, second = 0,
                microsecond = 0\<rparr>) \<and>
   (\<exists>kvs. market_params [(''creationDate'', PStr ''2026-01-01'')] = Inr kvs \<and>
      map_of kvs ''createdAt'' = Some (PStr ''2026-01-01T00:00:00''))"
proof -
  let ?d = "[(''creationDate'', PStr ''2026-01-01'')]"
  let ?dt = "\<lparr>year = 2026, month = 1, day = 1, hour = 0, minute = 0, second = 0, microsecond = 0\<rparr>"
  have c1: "created_at ?d = Inr (Some ?dt)"
    using created_at_field_choice [of ?d] by (simp add: dict_get_def parse_date_day)
  have c2: "created_at [(''createdAt'', PStr ''2026-01-01''), (''creationDate'', PStr ''garbage'')] =
      Inr (Some ?dt)"
    using created_at_field_choice
      [of "[(''createdAt'', PStr ''2026-01-01''), (''creationDate'', PStr ''garbage'')]"]
    by (simp add: dict_get_def parse_date_day)
  obtain kvs where k: "market_params ?d = Inr kvs"
    by (simp add: market_params_def bind_err_def volume_def dict_get_def start_date_def
        end_date_def closed_time_def parse_date_None comment_count_param_def c1)
  obtain ca where ca: "created_at ?d = Inr ca" "map_of kvs ''createdAt'' = Some (date_param ca)"
    using created_at_field_choice [of ?d] k by blast
  have "ca = Some ?dt"
    using ca(1) c1 by simp
  then have "map_of kvs ''createdAt'' = Some (PStr (isoformat ?dt))"
    using ca(2) by (simp only: date_param_def option.case)
  then have "map_of kvs ''createdAt'' = Some (PStr ''2026-01-01T00:00:00'')"
    by (simp only: isoformat_midnight)
  then show ?thesis
    using c1 c2 k by blast
qed

end
